theory Spec2Isabelle
  imports Complex_Main "HOL-Library.Log_Nat"
begin

section \<open>The arithmetic of type float\<close>

text \<open>
  Every number of \<^verbatim>\<open>CodeSample-2D_Line_of_Sight.cpp\<close> is a C++ \<^verbatim>\<open>float\<close>. A float
  value is modelled by the real number it denotes, and a float operation by the exact
  operation on the reals followed by one rounding \<open>fl\<close>. Two arithmetics are given:
  \<^item> \<open>Exact\<close>: no rounding at all, the arithmetic in which the comments of the source and
    its expected values reason;
  \<^item> \<open>Binary32\<close>: IEEE 754 single precision, round to nearest, ties to even, with gradual
    underflow (24 significant bits, least exponent \<open>-149\<close>).
  Outside the model: infinities and NaN as stored values (an overflowing result is
  rounded as if the exponent range were unbounded above, so the model is the program
  only while no intermediate result reaches \<open>2^128\<close>), the sign of zero, and any
  excess precision or fused multiply-add a compiler may use. A quotient by zero and an
  \<^verbatim>\<open>acos\<close> outside \<open>[-1, 1]\<close>, which IEEE arithmetic answers with an infinity or a NaN, are
  the value \<open>None\<close>.
\<close>

datatype arith = Exact | Binary32

text \<open>Round to the nearest integer, a tie to the even one.\<close>

definition rne :: "real \<Rightarrow> int" where
  "rne y = (let f = \<lfloor>y\<rfloor>; d = y - of_int f
            in if d < 1/2 then f else if 1/2 < d then f + 1
               else if even f then f else f + 1)"

text \<open>
  Rounding to binary32: \<open>y\<close> is \<open>\<bar>x\<bar>\<close> in units of the least subnormal \<open>2^-149\<close>; the
  bits of \<open>y\<close> beyond the leading 24 are rounded away (none of them when
  \<open>y < 2^24\<close>, the subnormal range and the first normal binades).
\<close>

definition round32 :: "real \<Rightarrow> real" where
  "round32 x = (let y = \<bar>x\<bar> * 2 ^ 149; k = nat (bitlen \<lfloor>y\<rfloor> - 24); m = rne (y / 2 ^ k)
                in sgn x * (of_int m * 2 ^ k / 2 ^ 149))"

fun fl :: "arith \<Rightarrow> real \<Rightarrow> real" where
  "fl Exact x = x"
| "fl Binary32 x = round32 x"

definition fadd :: "arith \<Rightarrow> real \<Rightarrow> real \<Rightarrow> real" where
  "fadd ar a b = fl ar (a + b)"

definition fsub :: "arith \<Rightarrow> real \<Rightarrow> real \<Rightarrow> real" where
  "fsub ar a b = fl ar (a - b)"

definition fmul :: "arith \<Rightarrow> real \<Rightarrow> real \<Rightarrow> real" where
  "fmul ar a b = fl ar (a * b)"

text \<open>\<open>a / b\<close> on floats; \<open>None\<close> when \<open>b\<close> is zero (the IEEE result is an infinity or a NaN).\<close>

definition fdiv :: "arith \<Rightarrow> real \<Rightarrow> real \<Rightarrow> real option" where
  "fdiv ar a b = (if b = 0 then None else Some (fl ar (a / b)))"

text \<open>
  \<^verbatim>\<open>sqrtf\<close>, correctly rounded as IEEE 754 requires. Its only argument in this program is
  a rounded sum of two rounded squares, which is never negative (lemma
  \<open>sum_of_squares_nonneg\<close> below), so the NaN of a negative argument does not arise.
\<close>

definition fsqrt :: "arith \<Rightarrow> real \<Rightarrow> real" where
  "fsqrt ar a = fl ar (sqrt a)"

text \<open>
  \<^verbatim>\<open>std::acos\<close> on a float is a function of the C library, not of this program, and the
  library does not promise a correctly rounded result. It is the parameter \<open>acos\<close>: the
  value the library returns for an argument in \<open>[-1, 1]\<close>. Outside \<open>[-1, 1]\<close> every
  library returns a NaN, the value \<open>None\<close>. The arc cosine of exact arithmetic is
  \<open>arccos\<close>; \<open>acos_nearest\<close> is the correctly rounded arc cosine of binary32 arithmetic,
  one of the functions a library may implement.
\<close>

definition facos :: "(real \<Rightarrow> real) \<Rightarrow> real \<Rightarrow> real option" where
  "facos acos q = (if - 1 \<le> q \<and> q \<le> 1 then Some (acos q) else None)"

definition acos_nearest :: "real \<Rightarrow> real" where
  "acos_nearest q = round32 (arccos q)"

text \<open>The constants of the source: the literals \<^verbatim>\<open>3.14159f\<close> and \<^verbatim>\<open>0.0001f\<close>.\<close>

definition PI_F :: "arith \<Rightarrow> real" where
  "PI_F ar = fl ar (314159 / 100000)"

definition MAX_FLOAT_TOLERANCE :: "arith \<Rightarrow> real" where
  "MAX_FLOAT_TOLERANCE ar = fl ar (1 / 10000)"

section \<open>Vec2D\<close>

record Vec2D =
  m_x :: real
  m_y :: real

text \<open>The constructor \<^verbatim>\<open>Vec2D(float x = 0.0f, float y = 0.0f)\<close>.\<close>

definition Vec2D :: "real \<Rightarrow> real \<Rightarrow> Vec2D" where
  "Vec2D x y = \<lparr>m_x = x, m_y = y\<rparr>"

text \<open>\<^verbatim>\<open>operator==\<close>: both components closer than the tolerance.\<close>

definition operator_eq :: "arith \<Rightarrow> Vec2D \<Rightarrow> Vec2D \<Rightarrow> bool" where
  "operator_eq ar v rhs \<longleftrightarrow>
     MAX_FLOAT_TOLERANCE ar > \<bar>fsub ar (m_x v) (m_x rhs)\<bar> \<and>
     MAX_FLOAT_TOLERANCE ar > \<bar>fsub ar (m_y v) (m_y rhs)\<bar>"

definition operator_plus :: "arith \<Rightarrow> Vec2D \<Rightarrow> Vec2D \<Rightarrow> Vec2D" where
  "operator_plus ar v rhs = Vec2D (fadd ar (m_x v) (m_x rhs)) (fadd ar (m_y v) (m_y rhs))"

definition operator_minus :: "arith \<Rightarrow> Vec2D \<Rightarrow> Vec2D \<Rightarrow> Vec2D" where
  "operator_minus ar v rhs = Vec2D (fsub ar (m_x v) (m_x rhs)) (fsub ar (m_y v) (m_y rhs))"

definition DotProduct :: "arith \<Rightarrow> Vec2D \<Rightarrow> Vec2D \<Rightarrow> real" where
  "DotProduct ar v vecIn =
     (let xComp = fmul ar (m_x v) (m_x vecIn);
          yComp = fmul ar (m_y v) (m_y vecIn)
      in fadd ar xComp yComp)"

definition GetMagnitude :: "arith \<Rightarrow> Vec2D \<Rightarrow> real" where
  "GetMagnitude ar v = fsqrt ar (fadd ar (fmul ar (m_x v) (m_x v)) (fmul ar (m_y v) (m_y v)))"

text \<open>
  \<^verbatim>\<open>GetNormalized\<close>: the result starts as \<^verbatim>\<open>Vec2D()\<close>, the zero vector, and is replaced by
  the quotients only when the magnitude is not zero. \<open>None\<close> stands for a result with a
  component that is not a number, the quotient by a zero magnitude.
\<close>

definition GetNormalized :: "arith \<Rightarrow> Vec2D \<Rightarrow> Vec2D option" where
  "GetNormalized ar v =
     (let magnitude = GetMagnitude ar v
      in if magnitude \<noteq> 0
         then (case (fdiv ar (m_x v) magnitude, fdiv ar (m_y v) magnitude) of
                 (Some nx, Some ny) \<Rightarrow> Some (Vec2D nx ny)
               | _ \<Rightarrow> None)
         else Some (Vec2D 0 0))"

section \<open>Camera2D\<close>

record Camera2D =
  m_position :: Vec2D
  m_orientation :: Vec2D
  m_fieldOfView :: real
  m_viewDistance :: real

definition SetPosition :: "Camera2D \<Rightarrow> Vec2D \<Rightarrow> Camera2D" where
  "SetPosition c position = c\<lparr>m_position := position\<rparr>"

text \<open>\<^verbatim>\<open>SetOrientation\<close> stores what \<^verbatim>\<open>GetNormalized\<close> returns.\<close>

definition SetOrientation :: "arith \<Rightarrow> Camera2D \<Rightarrow> Vec2D \<Rightarrow> Camera2D option" where
  "SetOrientation ar c orientation =
     map_option (\<lambda>n. c\<lparr>m_orientation := n\<rparr>) (GetNormalized ar orientation)"

definition SetFieldOfView :: "Camera2D \<Rightarrow> real \<Rightarrow> Camera2D" where
  "SetFieldOfView c angleRad = c\<lparr>m_fieldOfView := angleRad\<rparr>"

definition SetViewDistance :: "Camera2D \<Rightarrow> real \<Rightarrow> Camera2D" where
  "SetViewDistance c distance = c\<lparr>m_viewDistance := distance\<rparr>"

text \<open>
  The constructor: the member initialisers set position, \<open>\<bar>fieldOfView\<bar>\<close> and
  \<open>\<bar>viewDistance\<bar>\<close>, the orientation is default-constructed, and the body calls
  \<^verbatim>\<open>SetOrientation\<close>.
\<close>

definition Camera2D :: "arith \<Rightarrow> Vec2D \<Rightarrow> Vec2D \<Rightarrow> real \<Rightarrow> real \<Rightarrow> Camera2D option" where
  "Camera2D ar position orientation fieldOfView viewDistance =
     SetOrientation ar
       \<lparr>m_position = position, m_orientation = Vec2D 0 0,
        m_fieldOfView = \<bar>fieldOfView\<bar>, m_viewDistance = \<bar>viewDistance\<bar>\<rparr>
       orientation"

text \<open>
  \<^verbatim>\<open>CanSeeTarget\<close>, with the library's \<^verbatim>\<open>std::acos\<close> as the parameter \<open>acos\<close>. Where the
  source would compare a NaN (the \<^verbatim>\<open>acos\<close> of a quotient by zero or of a quotient outside
  \<open>[-1, 1]\<close>), the comparison is false and so is the result.
\<close>

definition CanSeeTarget :: "arith \<Rightarrow> (real \<Rightarrow> real) \<Rightarrow> Camera2D \<Rightarrow> Vec2D \<Rightarrow> bool" where
  "CanSeeTarget ar acos c targetPosition =
     (if operator_eq ar targetPosition (m_position c) then False
      else
        let vectorToTarget = operator_minus ar targetPosition (m_position c);
            distanceToTarget = GetMagnitude ar vectorToTarget
        in if distanceToTarget \<le> m_viewDistance c
           then (let dot = DotProduct ar (m_orientation c) vectorToTarget
                 in case fdiv ar dot distanceToTarget of
                      None \<Rightarrow> False
                    | Some q \<Rightarrow>
                        (case facos acos q of
                           None \<Rightarrow> False
                         | Some angleToTarget \<Rightarrow>
                             angleToTarget < fl ar (m_fieldOfView c / 2)))
           else False)"

section \<open>The camera and the targets of the self-test\<close>

text \<open>
  \<^verbatim>\<open>main\<close> builds \<^verbatim>\<open>cam0\<close> at the origin, pointed up, with field of view \<^verbatim>\<open>PI_F / 2.0f\<close> and
  view distance 100, the vectors \<^verbatim>\<open>vec5\<close> and \<^verbatim>\<open>vec6\<close> and the targets \<^verbatim>\<open>vec7\<close> to \<^verbatim>\<open>vec15\<close>.
  Of their coordinates only \<^verbatim>\<open>50.1f\<close> is not a binary fraction.
\<close>

definition cam0 :: "arith \<Rightarrow> Camera2D option" where
  "cam0 ar = Camera2D ar (Vec2D 0 0) (Vec2D 0 1) (fl ar (PI_F ar / 2)) 100"

definition vec5 :: Vec2D where "vec5 = Vec2D 5 5"
definition vec6 :: Vec2D where "vec6 = Vec2D 42 (- 12)"
definition vec7 :: Vec2D where "vec7 = Vec2D 0 300"
definition vec8 :: Vec2D where "vec8 = Vec2D 0 50"
definition vec9 :: Vec2D where "vec9 = Vec2D 0 (- 50)"
definition vec10 :: Vec2D where "vec10 = Vec2D 50 0"
definition vec11 :: Vec2D where "vec11 = Vec2D (- 50) 0"
definition vec12 :: Vec2D where "vec12 = Vec2D 50 50"
definition vec13 :: "arith \<Rightarrow> Vec2D" where "vec13 ar = Vec2D 50 (fl ar (501 / 10))"
definition vec14 :: Vec2D where "vec14 = Vec2D (- 50) 50"
definition vec15 :: "arith \<Rightarrow> Vec2D" where "vec15 ar = Vec2D (- 50) (fl ar (501 / 10))"

text \<open>
  The state of \<^verbatim>\<open>cam0\<close> in exact arithmetic (lemma \<open>cam0_Exact\<close>) and in binary32
  arithmetic (lemma \<open>cam0_Binary32\<close>), where \<^verbatim>\<open>PI_F / 2.0f\<close> is \<open>823549 / 2^19\<close>.
\<close>

definition cam0_exact :: Camera2D where
  "cam0_exact = \<lparr>m_position = Vec2D 0 0, m_orientation = Vec2D 0 1,
                 m_fieldOfView = 314159 / 200000, m_viewDistance = 100\<rparr>"

definition cam0_binary32 :: Camera2D where
  "cam0_binary32 = \<lparr>m_position = Vec2D 0 0, m_orientation = Vec2D 0 1,
                    m_fieldOfView = 823549 / 524288, m_viewDistance = 100\<rparr>"

text \<open>
  Two more cameras: \<^verbatim>\<open>cam0\<close> with a field of view of exactly \<open>\<pi>/2\<close>, for which the
  target \<open>(50, 50)\<close> lies on the boundary of the cone, and the camera that the constructor
  builds from a zero orientation (lemma \<open>zero_cam_constructed\<close>).
\<close>

definition boundary_cam :: Camera2D where
  "boundary_cam = \<lparr>m_position = Vec2D 0 0, m_orientation = Vec2D 0 1,
                   m_fieldOfView = pi / 2, m_viewDistance = 100\<rparr>"

definition zero_cam :: Camera2D where
  "zero_cam = \<lparr>m_position = Vec2D 0 0, m_orientation = Vec2D 0 0,
                m_fieldOfView = 4, m_viewDistance = 100\<rparr>"

text \<open>
  A camera like \<^verbatim>\<open>cam0\<close> but pointed along \<open>(11, 60)\<close>, a vector of length 61:
  \<^verbatim>\<open>Camera2D(Vec2D(0, 0), Vec2D(11, 60), PI_F / 2.0f, 100.0f)\<close>, as the constructor builds
  it in binary32 arithmetic (lemma \<open>ahead_cam_constructed\<close>) and in exact arithmetic,
  and the target \<open>(11, 60)\<close>, straight ahead of it at distance 61.
\<close>

definition ahead_cam :: Camera2D where
  "ahead_cam = \<lparr>m_position = Vec2D 0 0,
                 m_orientation = Vec2D (6050799 / 33554432) (4125545 / 4194304),
                 m_fieldOfView = 823549 / 524288, m_viewDistance = 100\<rparr>"

definition ahead_cam_exact :: Camera2D where
  "ahead_cam_exact = \<lparr>m_position = Vec2D 0 0, m_orientation = Vec2D (11 / 61) (60 / 61),
                       m_fieldOfView = 314159 / 200000, m_viewDistance = 100\<rparr>"

definition ahead_target :: Vec2D where "ahead_target = Vec2D 11 60"

text \<open>
  The camera with a zero orientation and the float nearest to \<open>\<pi>\<close>, \<open>13176795 / 2^22\<close>,
  as its field of view.
\<close>

definition float_pi_cam :: Camera2D where
  "float_pi_cam = \<lparr>m_position = Vec2D 0 0, m_orientation = Vec2D 0 0,
                    m_fieldOfView = 13176795 / 4194304, m_viewDistance = 100\<rparr>"

section \<open>Facts about rounding\<close>

lemma rne_zero: "rne 0 = 0"
  by (simp add: rne_def)

lemma rne_nonneg: "0 \<le> y \<Longrightarrow> 0 \<le> rne y"
  by (simp add: rne_def Let_def)

lemma round32_zero: "round32 0 = 0"
  by (simp add: round32_def)

lemma round32_sgn: "\<exists>r\<ge>0. round32 x = sgn x * r"
proof -
  define k where "k = nat (bitlen \<lfloor>\<bar>x\<bar> * 2 ^ 149\<rfloor> - 24)"
  define r where "r = real_of_int (rne (\<bar>x\<bar> * 2 ^ 149 / 2 ^ k)) * 2 ^ k / 2 ^ 149"
  have "0 \<le> rne (\<bar>x\<bar> * 2 ^ 149 / 2 ^ k)"
    by (rule rne_nonneg) simp
  then have "0 \<le> r"
    by (simp add: r_def)
  moreover have "round32 x = sgn x * r"
    by (simp add: round32_def Let_def r_def k_def)
  ultimately show ?thesis
    by blast
qed

lemma round32_nonneg: "0 \<le> x \<Longrightarrow> 0 \<le> round32 x"
  using round32_sgn [of x] by (auto simp: sgn_if split: if_splits)

lemma round32_nonpos: "x \<le> 0 \<Longrightarrow> round32 x \<le> 0"
  using round32_sgn [of x] by (auto simp: sgn_if mult_le_0_iff split: if_splits)

lemma fl_zero: "fl ar 0 = 0"
  by (cases ar) (simp_all add: round32_zero)

lemma fl_nonneg: "0 \<le> x \<Longrightarrow> 0 \<le> fl ar x"
  by (cases ar) (simp_all add: round32_nonneg)

lemma fl_nonpos: "x \<le> 0 \<Longrightarrow> fl ar x \<le> 0"
  by (cases ar) (simp_all add: round32_nonpos)

lemma round32_tolerance: "round32 (1 / 10000) = 13743895 / 2 ^ 37"
  by code_simp

lemma tolerance_pos: "0 < MAX_FLOAT_TOLERANCE ar"
  by (cases ar) (simp_all add: MAX_FLOAT_TOLERANCE_def round32_tolerance)

text \<open>The error of one rounding: half a unit in the last place of the result.\<close>

lemma rne_error: "\<bar>real_of_int (rne y) - y\<bar> \<le> 1 / 2"
proof -
  have "real_of_int \<lfloor>y\<rfloor> \<le> y" "y < real_of_int \<lfloor>y\<rfloor> + 1"
    by linarith+
  then show ?thesis
    by (auto simp: rne_def Let_def)
qed

lemma round32_error_cases:
  "\<bar>round32 x - x\<bar> \<le> 1 / 2 ^ 150 \<or> \<bar>round32 x - x\<bar> \<le> \<bar>x\<bar> / 2 ^ 24"
proof -
  define p :: real where "p = 2 ^ 149"
  define y where "y = \<bar>x\<bar> * p"
  define k where "k = nat (bitlen \<lfloor>y\<rfloor> - 24)"
  define m where "m = real_of_int (rne (y / 2 ^ k))"
  have p: "0 < p"
    by (simp add: p_def)
  have r: "round32 x = sgn x * (m * 2 ^ k / p)"
    by (simp add: round32_def Let_def y_def k_def m_def p_def)
  have x: "x = sgn x * (y / p)"
    using p by (simp add: y_def sgn_if)
  have "round32 x - x = sgn x * (m * 2 ^ k / p) - sgn x * (y / p)"
    using r x by simp
  also have "\<dots> = sgn x * ((m * 2 ^ k - y) / p)"
    by (simp only: right_diff_distrib diff_divide_distrib)
  finally have "\<bar>round32 x - x\<bar> = \<bar>sgn x\<bar> * (\<bar>m * 2 ^ k - y\<bar> / p)"
    using p by (simp only: abs_mult abs_divide abs_of_pos)
  also have "\<dots> \<le> 1 * (\<bar>m * 2 ^ k - y\<bar> / p)"
    using p by (intro mult_right_mono) (simp_all add: sgn_if)
  finally have e1: "\<bar>round32 x - x\<bar> \<le> \<bar>m * 2 ^ k - y\<bar> / p"
    by simp
  have "m * 2 ^ k - y = (m - y / 2 ^ k) * 2 ^ k"
    by (simp add: algebra_simps)
  then have "\<bar>m * 2 ^ k - y\<bar> = \<bar>m - y / 2 ^ k\<bar> * 2 ^ k"
    by (simp add: abs_mult)
  also have "\<dots> \<le> 1 / 2 * 2 ^ k"
    using rne_error [of "y / 2 ^ k"] by (intro mult_right_mono) (simp_all add: m_def)
  finally have e2: "\<bar>m * 2 ^ k - y\<bar> \<le> 2 ^ k / 2"
    by simp
  from e2 p have "\<bar>m * 2 ^ k - y\<bar> / p \<le> 2 ^ k / 2 / p"
    by (intro divide_right_mono) simp_all
  with e1 have e3: "\<bar>round32 x - x\<bar> \<le> 2 ^ k / 2 / p"
    by linarith
  show ?thesis
  proof (cases "k = 0")
    case True
    have "(1::real) / 2 / 2 ^ 149 = 1 / 2 ^ 150"
      by simp
    with e3 True show ?thesis
      by (simp add: p_def)
  next
    case False
    then have bl: "bitlen \<lfloor>y\<rfloor> = int k + 24"
      by (simp add: k_def)
    then have pos: "0 < \<lfloor>y\<rfloor>"
      using bitlen_eq_zero_iff [of "\<lfloor>y\<rfloor>"] by linarith
    have "nat (bitlen \<lfloor>y\<rfloor> - 1) = k + 23"
      using bl by simp
    with bitlen_bounds [OF pos] have "(2::int) ^ (k + 23) \<le> \<lfloor>y\<rfloor>"
      by simp
    then have "real_of_int (2 ^ (k + 23)) \<le> real_of_int \<lfloor>y\<rfloor>"
      by (simp only: of_int_le_iff)
    also have "\<dots> \<le> y"
      by linarith
    finally have "2 ^ k * 2 ^ 23 \<le> y"
      by (simp add: power_add)
    then have "2 ^ k / 2 \<le> y / 2 ^ 24"
      by simp
    then have "2 ^ k / 2 / p \<le> y / 2 ^ 24 / p"
      using p by (intro divide_right_mono) simp_all
    also have "\<dots> = \<bar>x\<bar> / 2 ^ 24"
      using p by (simp add: y_def)
    finally show ?thesis
      using e3 by linarith
  qed
qed

lemma round32_error: "\<bar>round32 x - x\<bar> \<le> \<bar>x\<bar> / 2 ^ 24 + 1 / 2 ^ 150"
proof -
  have "0 \<le> \<bar>x\<bar> / 2 ^ 24" "(0::real) \<le> 1 / 2 ^ 150"
    by simp_all
  with round32_error_cases [of x] show ?thesis
    by linarith
qed

lemma fl_error: "\<bar>fl ar x - x\<bar> \<le> \<bar>x\<bar> / 2 ^ 24 + 1 / 2 ^ 150"
proof (cases ar)
  case Exact
  have "0 \<le> \<bar>x\<bar> / 2 ^ 24 + 1 / 2 ^ 150"
    by simp
  with Exact show ?thesis
    by simp
next
  case Binary32
  with round32_error [of x] show ?thesis
    by simp
qed

lemma two_powers:
  "(2::real) ^ 16 = 65536"
  "(2::real) ^ 21 = 2097152"
  "(2::real) ^ 22 = 4194304"
  "(2::real) ^ 24 = 16777216"
  "(2::real) ^ 30 = 1073741824"
  "(2::real) ^ 37 = 137438953472"
  "(2::real) ^ 60 = 1152921504606846976"
  "(2::real) ^ 90 = 1237940039285380274899124224"
  "(2::real) ^ 120 = 1329227995784915872903807060280344576"
  "(2::real) ^ 150 = 1427247692705959881058285969449495136382746624"
  by simp_all

lemma fl_error_nonneg:
  assumes "0 \<le> x"
  shows "x - (x / 2 ^ 24 + 1 / 2 ^ 150) \<le> fl ar x \<and> fl ar x \<le> x + (x / 2 ^ 24 + 1 / 2 ^ 150)"
  using fl_error [of ar x] assms unfolding two_powers by argo

lemma tolerance_lower: "13743895 / 2 ^ 37 \<le> MAX_FLOAT_TOLERANCE ar"
  by (cases ar) (simp_all add: MAX_FLOAT_TOLERANCE_def round32_tolerance)

text \<open>
  The rounding of a number is determined by its binade and by the integer nearest to it
  in units of the last place.
\<close>

lemma rne_unique:
  assumes "\<bar>z - of_int n\<bar> < 1 / 2"
  shows "rne z = n"
proof (cases "of_int n \<le> z")
  case True
  with assms have f: "\<lfloor>z\<rfloor> = n"
    by (intro floor_unique) linarith+
  with assms True show ?thesis
    by (simp add: rne_def Let_def)
next
  case False
  have *: "real_of_int (n - 1) = of_int n - 1"
    by simp
  from False assms have f: "\<lfloor>z\<rfloor> = n - 1"
    by (intro floor_unique; unfold *) linarith+
  with assms False show ?thesis
    by (simp add: rne_def Let_def)
qed

lemma round32_unique:
  assumes lo: "2 ^ (23 + e) \<le> x * 2 ^ 149" and hi: "x * 2 ^ 149 < 2 * 2 ^ (23 + e)"
    and n: "\<bar>x * 2 ^ 149 / 2 ^ e - of_int n\<bar> < 1 / 2"
  shows "round32 x = of_int n * 2 ^ e / 2 ^ 149"
proof -
  define y where "y = x * 2 ^ 149"
  have ypos: "0 < y"
    using lo unfolding y_def by (rule less_le_trans [rotated]) simp
  then have xpos: "0 < x"
    by (simp add: y_def zero_less_mult_iff)
  define b where "b = \<lfloor>y\<rfloor> - 2 ^ (23 + e)"
  have "(2::real) ^ (23 + e) = of_int (2 ^ (23 + e))"
    by simp
  with lo have "2 ^ (23 + e) \<le> \<lfloor>y\<rfloor>"
    unfolding y_def by (simp only: le_floor_iff)
  then have b0: "0 \<le> b"
    by (simp add: b_def)
  have "(2::real) * 2 ^ (23 + e) = of_int (2 * 2 ^ (23 + e))"
    by simp
  with hi have "\<lfloor>y\<rfloor> < 2 * 2 ^ (23 + e)"
    unfolding y_def by (simp only: floor_less_iff)
  then have b1: "b < 2 ^ (23 + e)"
    by (simp add: b_def)
  have "bitlen \<lfloor>y\<rfloor> = bitlen (2 ^ (23 + e) + b)"
    by (simp add: b_def)
  also have "\<dots> = int (23 + e) + 1"
    using bitlen_twopow_add_eq [OF b0 b1] by simp
  finally have k: "nat (bitlen \<lfloor>y\<rfloor> - 24) = e"
    by simp
  have m: "rne (y / 2 ^ e) = n"
    using n unfolding y_def by (rule rne_unique)
  have "round32 x = sgn x * (of_int (rne (\<bar>x\<bar> * 2 ^ 149 / 2 ^ nat (bitlen \<lfloor>\<bar>x\<bar> * 2 ^ 149\<rfloor> - 24)))
      * 2 ^ nat (bitlen \<lfloor>\<bar>x\<bar> * 2 ^ 149\<rfloor> - 24) / 2 ^ 149)"
    by (simp only: round32_def Let_def)
  also have "\<bar>x\<bar> = x"
    using xpos by simp
  finally show ?thesis
    using xpos by (simp only: y_def [symmetric] k m) simp
qed

section \<open>Facts about the vector operations\<close>

lemma sum_of_squares_nonneg: "0 \<le> fadd ar (fmul ar x x) (fmul ar y y)"
  by (simp add: fadd_def fmul_def fl_nonneg)

lemma GetMagnitude_nonneg: "0 \<le> GetMagnitude ar v"
  by (simp add: GetMagnitude_def fsqrt_def fl_nonneg sum_of_squares_nonneg)

lemma GetMagnitude_zero: "GetMagnitude ar (Vec2D 0 0) = 0"
  by (simp add: GetMagnitude_def fsqrt_def fadd_def fmul_def Vec2D_def fl_zero)

lemma GetNormalized_Some:
  "GetNormalized ar v =
     Some (if GetMagnitude ar v \<noteq> 0
           then Vec2D (fl ar (m_x v / GetMagnitude ar v)) (fl ar (m_y v / GetMagnitude ar v))
           else Vec2D 0 0)"
  by (simp add: GetNormalized_def Let_def fdiv_def)

lemma facos_nonneg:
  assumes "\<forall>q. - 1 \<le> q \<and> q \<le> 1 \<longrightarrow> 0 \<le> acos q" and "facos acos q = Some a"
  shows "0 \<le> a"
  using assms by (auto simp: facos_def split: if_splits)

text \<open>The correctly rounded arc cosine is within the relative error \<open>2^-22\<close>.\<close>

lemma acos_nearest_accurate:
  "\<bar>acos_nearest q - arccos q\<bar> \<le> \<bar>arccos q\<bar> / 2 ^ 22 + 1 / 2 ^ 150"
proof -
  have "\<bar>round32 (arccos q) - arccos q\<bar> \<le> \<bar>arccos q\<bar> / 2 ^ 24 + 1 / 2 ^ 150"
    by (rule round32_error)
  then show ?thesis
    unfolding acos_nearest_def two_powers by argo
qed

lemma operator_eq_refl: "operator_eq ar v v"
  by (simp add: operator_eq_def fsub_def fl_zero tolerance_pos)

lemma cam0_Exact: "cam0 Exact = Some cam0_exact"
  by (simp add: cam0_def cam0_exact_def Camera2D_def SetOrientation_def GetNormalized_Some
      GetMagnitude_def fsqrt_def fadd_def fmul_def Vec2D_def PI_F_def)

lemma sqrt_90000: "sqrt 90000 = 300"
  using real_sqrt_abs [of 300] by simp

lemma sqrt_10000: "sqrt 10000 = 100"
  using real_sqrt_abs [of 100] by simp

lemma sqrt_2500: "sqrt 2500 = 50"
  using real_sqrt_abs [of 50] by simp

lemma Vec2D_eta: "Vec2D (m_x v) (m_y v) = v"
  by (simp add: Vec2D_def)

lemma zero_cam_constructed: "Camera2D ar (Vec2D 0 0) (Vec2D 0 0) 4 100 = Some zero_cam"
  by (simp add: Camera2D_def SetOrientation_def GetNormalized_Some GetMagnitude_zero zero_cam_def)

section \<open>Rounding errors of addition and subtraction\<close>

lemma add_sub_component:
  assumes a: "\<bar>a\<bar> \<le> 512" and b: "\<bar>b\<bar> \<le> 512"
  shows "\<bar>fsub ar (fsub ar (fadd ar a b) b) a\<bar> < MAX_FLOAT_TOLERANCE ar"
proof -
  define s where "s = fl ar (a + b)"
  define r where "r = fl ar (s - b)"
  define d where "d = fl ar (r - a)"
  have es: "\<bar>s - (a + b)\<bar> \<le> \<bar>a + b\<bar> / 2 ^ 24 + 1 / 2 ^ 150"
    unfolding s_def by (rule fl_error)
  have er: "\<bar>r - (s - b)\<bar> \<le> \<bar>s - b\<bar> / 2 ^ 24 + 1 / 2 ^ 150"
    unfolding r_def by (rule fl_error)
  have ed: "\<bar>d - (r - a)\<bar> \<le> \<bar>r - a\<bar> / 2 ^ 24 + 1 / 2 ^ 150"
    unfolding d_def by (rule fl_error)
  from a b es have s1: "\<bar>s - (a + b)\<bar> \<le> 1025 / 2 ^ 24"
    unfolding two_powers by argo
  with a have s2: "\<bar>s - b\<bar> \<le> 513"
    unfolding two_powers by argo
  with er have r1: "\<bar>r - (s - b)\<bar> \<le> 514 / 2 ^ 24"
    unfolding two_powers by argo
  with s1 have r2: "\<bar>r - a\<bar> \<le> 1539 / 2 ^ 24"
    unfolding two_powers by argo
  with ed have "\<bar>d\<bar> \<le> 1540 / 2 ^ 24"
    unfolding two_powers by argo
  also have "(1540 :: real) / 2 ^ 24 < 13743895 / 2 ^ 37"
    by simp
  finally have "\<bar>d\<bar> < MAX_FLOAT_TOLERANCE ar"
    using tolerance_lower [of ar] by linarith
  then show ?thesis
    by (simp add: d_def r_def s_def fsub_def fadd_def)
qed

lemma add_sub_bounded:
  assumes "\<bar>m_x a\<bar> \<le> 512" "\<bar>m_y a\<bar> \<le> 512" "\<bar>m_x b\<bar> \<le> 512" "\<bar>m_y b\<bar> \<le> 512"
  shows "operator_eq ar (operator_minus ar (operator_plus ar a b) b) a"
  using assms by (simp add: operator_eq_def operator_minus_def operator_plus_def Vec2D_def add_sub_component)

lemma add_sub_exact: "operator_eq Exact (operator_minus Exact (operator_plus Exact a b) b) a"
  by (simp add: operator_eq_def operator_minus_def operator_plus_def Vec2D_def fsub_def fadd_def MAX_FLOAT_TOLERANCE_def)

section \<open>Rounding errors of magnitude and normalization\<close>

lemma sqrt_near_one:
  assumes "0 \<le> s"
  shows "\<bar>sqrt s - 1\<bar> \<le> \<bar>s - 1\<bar>"
proof -
  have r: "0 \<le> sqrt s"
    using assms by simp
  have "s - 1 = (sqrt s - 1) * (sqrt s + 1)"
    using assms by (simp add: algebra_simps)
  then have "\<bar>s - 1\<bar> = \<bar>sqrt s - 1\<bar> * \<bar>sqrt s + 1\<bar>"
    by (simp add: abs_mult)
  moreover have "\<bar>sqrt s - 1\<bar> * 1 \<le> \<bar>sqrt s - 1\<bar> * \<bar>sqrt s + 1\<bar>"
    using r by (intro mult_left_mono) simp_all
  ultimately show ?thesis
    by simp
qed

lemma sqrt_scaled_bounds:
  assumes S: "0 < S" and lo: "S - S / 2 ^ 22 \<le> s" and hi: "s \<le> S + S / 2 ^ 22"
  shows "sqrt S - sqrt S / 2 ^ 22 \<le> sqrt s \<and> sqrt s \<le> sqrt S + sqrt S / 2 ^ 22"
proof -
  define M where "M = sqrt S"
  have M: "0 < M" and MM: "M * M = S"
    using S by (simp_all add: M_def)
  define c :: real where "c = 1 - 1 / 2 ^ 22"
  define d :: real where "d = 1 + 1 / 2 ^ 22"
  have c: "0 \<le> c" "c * c \<le> c" and d: "0 \<le> d" "d \<le> d * d"
    by (simp_all add: c_def d_def)
  have "(M * c)\<^sup>2 = S * (c * c)"
    by (simp add: power2_eq_square MM [symmetric] algebra_simps)
  also have "\<dots> \<le> S * c"
    using S c by (intro mult_left_mono) simp_all
  also have "\<dots> = S - S / 2 ^ 22"
    by (simp add: c_def algebra_simps)
  finally have "(M * c)\<^sup>2 \<le> s"
    using lo by linarith
  then have low: "M * c \<le> sqrt s"
    by (rule real_le_rsqrt)
  have "s \<le> S * d"
    using hi by (simp add: d_def algebra_simps)
  also have "\<dots> \<le> S * (d * d)"
    using S d by (intro mult_left_mono) simp_all
  also have "\<dots> = (M * d)\<^sup>2"
    by (simp add: power2_eq_square MM [symmetric] algebra_simps)
  finally have "sqrt s \<le> M * d"
    using M d by (intro real_le_lsqrt) simp_all
  with low show ?thesis
    by (simp add: M_def c_def d_def algebra_simps)
qed

lemma magnitude_error:
  assumes low: "1 / 2 ^ 120 \<le> x * x + y * y"
  shows "\<bar>GetMagnitude ar (Vec2D x y) - sqrt (x * x + y * y)\<bar> \<le> sqrt (x * x + y * y) / 2 ^ 21"
proof -
  define X where "X = x * x"
  define Y where "Y = y * y"
  define S where "S = X + Y"
  define M where "M = sqrt S"
  define a where "a = fl ar X"
  define b where "b = fl ar Y"
  define s where "s = fl ar (a + b)"
  define q where "q = sqrt s"
  define m where "m = fl ar q"
  have gm: "GetMagnitude ar (Vec2D x y) = m"
    by (simp add: GetMagnitude_def fsqrt_def fadd_def fmul_def Vec2D_def m_def q_def s_def a_def
        b_def X_def Y_def)
  have X: "0 \<le> X" and Y: "0 \<le> Y"
    by (simp_all add: X_def Y_def)
  have a: "0 \<le> a" and b: "0 \<le> b"
    using X Y by (simp_all add: a_def b_def fl_nonneg)
  have ea: "X - (X / 2 ^ 24 + 1 / 2 ^ 150) \<le> a \<and> a \<le> X + (X / 2 ^ 24 + 1 / 2 ^ 150)"
    unfolding a_def using X by (rule fl_error_nonneg)
  have eb: "Y - (Y / 2 ^ 24 + 1 / 2 ^ 150) \<le> b \<and> b \<le> Y + (Y / 2 ^ 24 + 1 / 2 ^ 150)"
    unfolding b_def using Y by (rule fl_error_nonneg)
  have es: "a + b - ((a + b) / 2 ^ 24 + 1 / 2 ^ 150) \<le> s \<and> s \<le> a + b + ((a + b) / 2 ^ 24 + 1 / 2 ^ 150)"
    unfolding s_def using a b by (intro fl_error_nonneg) simp
  have Slow: "1 / 2 ^ 120 \<le> S"
    using low by (simp add: S_def X_def Y_def)
  then have S: "0 < S"
    unfolding two_powers by argo
  have sb: "S - S / 2 ^ 22 \<le> s \<and> s \<le> S + S / 2 ^ 22"
    using ea eb es Slow unfolding S_def two_powers by argo
  then have s0: "0 \<le> s"
    using S unfolding two_powers by argo
  have qb: "M - M / 2 ^ 22 \<le> q \<and> q \<le> M + M / 2 ^ 22"
    unfolding M_def q_def using S sb by (intro sqrt_scaled_bounds) simp_all
  have "(1 / 2 ^ 60 :: real)\<^sup>2 = 1 / 2 ^ 120"
    by (simp add: power_divide)
  with Slow have "(1 / 2 ^ 60)\<^sup>2 \<le> S"
    by (simp only:)
  then have Mlow: "1 / 2 ^ 60 \<le> M"
    unfolding M_def by (rule real_le_rsqrt)
  have q0: "0 \<le> q"
    using s0 by (simp add: q_def)
  have em: "q - (q / 2 ^ 24 + 1 / 2 ^ 150) \<le> m \<and> m \<le> q + (q / 2 ^ 24 + 1 / 2 ^ 150)"
    unfolding m_def using q0 by (rule fl_error_nonneg)
  have "\<bar>m - M\<bar> \<le> M / 2 ^ 21"
    using em qb Mlow unfolding two_powers by argo
  then show ?thesis
    by (simp add: gm M_def S_def X_def Y_def)
qed

lemma component_error:
  assumes M: "0 < M" and m: "\<bar>m - M\<bar> \<le> M / 2 ^ 21" and x: "\<bar>x\<bar> \<le> M"
  shows "\<bar>fl ar (x / m) - x / M\<bar> \<le> 3 / 2 ^ 21"
proof -
  define c where "c = x / M"
  define q where "q = x / m"
  define r where "r = (M - m) / m"
  have mpos: "0 < m" and M2: "M \<le> 2 * m"
    using M m unfolding two_powers by argo+
  have c1: "\<bar>c\<bar> \<le> 1"
    using M x by (simp add: c_def)
  have "\<bar>M - m\<bar> \<le> M / 2 ^ 21"
    using m by (simp add: abs_minus_commute)
  also have "\<dots> \<le> 2 * m / 2 ^ 21"
    using M2 by (intro divide_right_mono) simp_all
  finally have "\<bar>M - m\<bar> / m \<le> 2 * m / 2 ^ 21 / m"
    using mpos by (intro divide_right_mono) simp_all
  then have r: "\<bar>r\<bar> \<le> 2 / 2 ^ 21"
    using mpos by (simp add: r_def)
  have "q - c = c * r"
    using M mpos by (simp add: q_def c_def r_def field_simps)
  then have "\<bar>q - c\<bar> = \<bar>c\<bar> * \<bar>r\<bar>"
    by (simp add: abs_mult)
  also have "\<dots> \<le> 1 * (2 / 2 ^ 21)"
    using c1 r by (intro mult_mono) simp_all
  finally have qc: "\<bar>q - c\<bar> \<le> 2 / 2 ^ 21"
    by simp
  have "\<bar>fl ar q - q\<bar> \<le> \<bar>q\<bar> / 2 ^ 24 + 1 / 2 ^ 150"
    by (rule fl_error)
  with qc c1 have "\<bar>fl ar q - c\<bar> \<le> 3 / 2 ^ 21"
    unfolding two_powers by argo
  then show ?thesis
    by (simp add: q_def c_def)
qed

lemma square_lower:
  fixes c x :: real
  assumes "c \<le> \<bar>x\<bar>" and "0 \<le> c"
  shows "c * c \<le> x * x"
proof -
  have "c * c \<le> \<bar>x\<bar> * \<bar>x\<bar>"
    using assms by (intro mult_mono) simp_all
  then show ?thesis
    by simp
qed

lemma square_diff_bound:
  fixes n c e :: real
  assumes "\<bar>n - c\<bar> \<le> e" and "\<bar>c\<bar> \<le> 1" and "e \<le> 1"
  shows "\<bar>n * n - c * c\<bar> \<le> e * 3"
proof -
  have "n * n - c * c = (n - c) * (n + c)"
    by (simp add: algebra_simps)
  then have "\<bar>n * n - c * c\<bar> = \<bar>n - c\<bar> * \<bar>n + c\<bar>"
    by (simp add: abs_mult)
  also have "\<dots> \<le> e * 3"
    using assms by (intro mult_mono) linarith+
  finally show ?thesis .
qed

lemma normalized_magnitude_error:
  assumes low: "1 / 2 ^ 60 \<le> \<bar>x\<bar> \<or> 1 / 2 ^ 60 \<le> \<bar>y\<bar>"
  shows "\<exists>n. GetNormalized ar (Vec2D x y) = Some n \<and> \<bar>GetMagnitude ar n - 1\<bar> \<le> 1 / 2 ^ 16"
proof -
  define S where "S = x * x + y * y"
  define M where "M = sqrt S"
  define m where "m = GetMagnitude ar (Vec2D x y)"
  define cx where "cx = x / M"
  define cy where "cy = y / M"
  define nx where "nx = fl ar (x / m)"
  define ny where "ny = fl ar (y / m)"
  define T where "T = nx * nx + ny * ny"
  define L :: real where "L = 1 / 2 ^ 60"
  have L: "0 \<le> L" and LL: "L * L = 1 / 2 ^ 120"
    by (simp_all add: L_def)
  from low have "L * L \<le> x * x \<or> L * L \<le> y * y"
    unfolding L_def [symmetric] using L by (auto intro: square_lower)
  moreover have "0 \<le> x * x" "0 \<le> y * y"
    by simp_all
  ultimately have Slow: "1 / 2 ^ 120 \<le> S"
    unfolding LL S_def by linarith
  then have S: "0 < S"
    unfolding two_powers by argo
  then have M: "0 < M" and MM: "M * M = S"
    by (simp_all add: M_def)
  have em: "\<bar>m - M\<bar> \<le> M / 2 ^ 21"
    unfolding m_def M_def S_def using Slow [unfolded S_def] by (rule magnitude_error)
  then have mpos: "0 < m"
    using M unfolding two_powers by argo
  have xM: "\<bar>x\<bar> \<le> M"
    unfolding M_def S_def by (rule real_le_rsqrt) (simp add: power2_eq_square)
  have yM: "\<bar>y\<bar> \<le> M"
    unfolding M_def S_def by (rule real_le_rsqrt) (simp add: power2_eq_square)
  have ex: "\<bar>nx - cx\<bar> \<le> 3 / 2 ^ 21"
    unfolding nx_def cx_def using M em xM by (rule component_error)
  have ey: "\<bar>ny - cy\<bar> \<le> 3 / 2 ^ 21"
    unfolding ny_def cy_def using M em yM by (rule component_error)
  have cx1: "\<bar>cx\<bar> \<le> 1" and cy1: "\<bar>cy\<bar> \<le> 1"
    using M xM yM by (simp_all add: cx_def cy_def)
  have "cx * cx + cy * cy = (x * x + y * y) / (M * M)"
    by (simp add: cx_def cy_def add_divide_distrib)
  also have "\<dots> = S / S"
    by (simp only: MM S_def)
  also have "\<dots> = 1"
    using S by simp
  finally have unit: "cx * cx + cy * cy = 1" .
  have e1: "(3 / 2 ^ 21 :: real) \<le> 1"
    by simp
  have dx: "\<bar>nx * nx - cx * cx\<bar> \<le> 3 / 2 ^ 21 * 3"
    using ex cx1 e1 by (rule square_diff_bound)
  have dy: "\<bar>ny * ny - cy * cy\<bar> \<le> 3 / 2 ^ 21 * 3"
    using ey cy1 e1 by (rule square_diff_bound)
  have T1: "\<bar>T - 1\<bar> \<le> 18 / 2 ^ 21"
    using dx dy unit unfolding T_def two_powers by argo
  then have Tlow: "1 / 2 ^ 120 \<le> T" and T0: "0 \<le> T"
    unfolding two_powers by argo+
  have r1: "\<bar>sqrt T - 1\<bar> \<le> 18 / 2 ^ 21"
    using sqrt_near_one [OF T0] T1 by linarith
  have "\<bar>GetMagnitude ar (Vec2D nx ny) - sqrt T\<bar> \<le> sqrt T / 2 ^ 21"
    unfolding T_def using Tlow [unfolded T_def] by (rule magnitude_error)
  with r1 have "\<bar>GetMagnitude ar (Vec2D nx ny) - 1\<bar> \<le> 1 / 2 ^ 16"
    unfolding two_powers by argo
  moreover have "GetMagnitude ar (Vec2D x y) \<noteq> 0"
    using mpos by (simp add: m_def)
  then have "GetNormalized ar (Vec2D x y) = Some (Vec2D nx ny)"
    by (simp add: GetNormalized_Some nx_def ny_def m_def Vec2D_def)
  ultimately show ?thesis
    by blast
qed

lemma exact_normalized_unit:
  assumes "m_x v \<noteq> 0 \<or> m_y v \<noteq> 0"
  shows "\<exists>n. GetNormalized Exact v = Some n \<and> GetMagnitude Exact n = 1"
proof -
  define s where "s = m_x v * m_x v + m_y v * m_y v"
  define r where "r = sqrt s"
  from assms have pos: "0 < s"
    unfolding s_def by (metis add_pos_nonneg add_nonneg_pos zero_le_square not_real_square_gt_zero)
  then have rpos: "0 < r" and rr: "r * r = s"
    by (simp_all add: r_def)
  have m: "GetMagnitude Exact v = r"
    by (simp add: GetMagnitude_def fsqrt_def fadd_def fmul_def r_def s_def)
  have "m_x v / r * (m_x v / r) + m_y v / r * (m_y v / r) = s / (r * r)"
    by (simp add: s_def add_divide_distrib)
  also have "\<dots> = 1"
    using pos by (simp add: rr)
  finally have "GetMagnitude Exact (Vec2D (m_x v / r) (m_y v / r)) = 1"
    by (simp add: GetMagnitude_def fsqrt_def fadd_def fmul_def Vec2D_def)
  then show ?thesis
    using rpos by (simp add: GetNormalized_Some m)
qed

lemma normalized_near_unit:
  assumes "1 / 2 ^ 60 \<le> \<bar>m_x v\<bar> \<or> 1 / 2 ^ 60 \<le> \<bar>m_y v\<bar>"
  shows "\<exists>n. GetNormalized ar v = Some n \<and> \<bar>GetMagnitude ar n - 1\<bar> < MAX_FLOAT_TOLERANCE ar"
proof -
  from normalized_magnitude_error [OF assms, of ar]
  obtain n where n: "GetNormalized ar v = Some n" "\<bar>GetMagnitude ar n - 1\<bar> \<le> 1 / 2 ^ 16"
    by (auto simp: Vec2D_eta)
  from n(2) tolerance_lower [of ar] have "\<bar>GetMagnitude ar n - 1\<bar> < MAX_FLOAT_TOLERANCE ar"
    unfolding two_powers by argo
  with n(1) show ?thesis
    by blast
qed

lemma distance_pos:
  assumes "\<not> operator_eq ar t p"
  shows "0 < GetMagnitude ar (operator_minus ar t p)"
proof -
  define v where "v = operator_minus ar t p"
  define S where "S = m_x v * m_x v + m_y v * m_y v"
  have tl: "1 / 2 ^ 60 \<le> MAX_FLOAT_TOLERANCE ar"
    using tolerance_lower [of ar] unfolding two_powers by argo
  from assms have "MAX_FLOAT_TOLERANCE ar \<le> \<bar>m_x v\<bar> \<or> MAX_FLOAT_TOLERANCE ar \<le> \<bar>m_y v\<bar>"
    by (auto simp: operator_eq_def v_def operator_minus_def Vec2D_def)
  with tl have low: "1 / 2 ^ 60 \<le> \<bar>m_x v\<bar> \<or> 1 / 2 ^ 60 \<le> \<bar>m_y v\<bar>"
    by linarith
  define L :: real where "L = 1 / 2 ^ 60"
  have L: "0 \<le> L" and LL: "L * L = 1 / 2 ^ 120"
    by (simp_all add: L_def)
  from low have "L * L \<le> m_x v * m_x v \<or> L * L \<le> m_y v * m_y v"
    unfolding L_def [symmetric] using L by (auto intro: square_lower)
  moreover have "0 \<le> m_x v * m_x v" "0 \<le> m_y v * m_y v"
    by simp_all
  ultimately have Slow: "1 / 2 ^ 120 \<le> S"
    unfolding LL S_def by linarith
  then have "0 < S"
    unfolding two_powers by argo
  then have M: "0 < sqrt S"
    by simp
  have "\<bar>GetMagnitude ar (Vec2D (m_x v) (m_y v)) - sqrt S\<bar> \<le> sqrt S / 2 ^ 21"
    unfolding S_def using Slow [unfolded S_def] by (rule magnitude_error)
  with M have "0 < GetMagnitude ar (Vec2D (m_x v) (m_y v))"
    unfolding two_powers by argo
  then show ?thesis
    by (simp add: Vec2D_eta v_def)
qed


section \<open>Bounds on the cosine near a quarter of \<open>\<pi>\<close>\<close>

lemma cos_taylor_bound: "\<bar>cos x - (\<Sum>m<n. cos_coeff m * x ^ m)\<bar> \<le> \<bar>x\<bar> ^ n / fact n"
proof -
  obtain t where t: "cos x = (\<Sum>m<n. cos_coeff m * x ^ m) + (cos (t + 1/2 * real n * pi) / fact n) * x ^ n"
    using Maclaurin_cos_expansion [of x n] by blast
  have "\<bar>cos x - (\<Sum>m<n. cos_coeff m * x ^ m)\<bar> = \<bar>cos (t + 1/2 * real n * pi)\<bar> * (\<bar>x\<bar> ^ n / fact n)"
    by (simp add: t abs_mult power_abs)
  also have "\<dots> \<le> 1 * (\<bar>x\<bar> ^ n / fact n)"
    by (intro mult_right_mono) simp_all
  finally show ?thesis
    by simp
qed

lemma upt_12: "[0..<12] = [0, 1, 2, 3, 4, 5, 6, 7, 8, 9, 10, 11 :: nat]"
  by code_simp

lemma cos_poly12:
  "(\<Sum>m<12. cos_coeff m * x ^ m)
   = 1 - x\<^sup>2 / 2 + x ^ 4 / 24 - x ^ 6 / 720 + x ^ 8 / 40320 - x ^ 10 / 3628800"
proof -
  have "(\<Sum>m<12. cos_coeff m * x ^ m) = sum_list (map (\<lambda>m. cos_coeff m * x ^ m) [0..<12])"
    by (simp only: interv_sum_list_conv_sum_set_nat set_upt lessThan_atLeast0)
  also have "\<dots> = 1 - x\<^sup>2 / 2 + x ^ 4 / 24 - x ^ 6 / 720 + x ^ 8 / 40320 - x ^ 10 / 3628800"
    by (simp add: upt_12 cos_coeff_def fact_numeral)
  finally show ?thesis .
qed

lemma cos_taylor12:
  "\<bar>cos x - (1 - x\<^sup>2 / 2 + x ^ 4 / 24 - x ^ 6 / 720 + x ^ 8 / 40320 - x ^ 10 / 3628800)\<bar>
   \<le> \<bar>x\<bar> ^ 12 / 479001600"
  for x :: real
  using cos_taylor_bound [of x 12] by (simp only: cos_poly12) (simp add: fact_numeral)

lemma cos_half_fov:
  "7071070 / 10000000 \<le> cos (314159 / 400000 :: real) \<and>
   cos (314159 / 400000 :: real) \<le> 7071075 / 10000000"
proof -
  define x :: real where "x = 314159 / 400000"
  define P where "P = 1 - x\<^sup>2 / 2 + x ^ 4 / 24 - x ^ 6 / 720 + x ^ 8 / 40320 - x ^ 10 / 3628800"
  define R where "R = \<bar>x\<bar> ^ 12 / 479001600"
  have b: "\<bar>cos x - P\<bar> \<le> R"
    unfolding P_def R_def by (rule cos_taylor12)
  have "7071070 / 10000000 \<le> P - R"
    by (simp add: P_def R_def x_def power_divide)
  moreover have "P + R \<le> 7071075 / 10000000"
    by (simp add: P_def R_def x_def power_divide)
  ultimately show ?thesis
    using b unfolding x_def [symmetric] by linarith
qed

lemma cos_below_edge: "7071070 / 10000000 \<le> cos (7853978 / 10000000 :: real)"
proof -
  define x :: real where "x = 7853978 / 10000000"
  define P where "P = 1 - x\<^sup>2 / 2 + x ^ 4 / 24 - x ^ 6 / 720 + x ^ 8 / 40320 - x ^ 10 / 3628800"
  define R where "R = \<bar>x\<bar> ^ 12 / 479001600"
  have b: "\<bar>cos x - P\<bar> \<le> R"
    unfolding P_def R_def by (rule cos_taylor12)
  have "7071070 / 10000000 \<le> P - R"
    by (simp add: P_def R_def x_def power_divide)
  with b show ?thesis
    unfolding x_def [symmetric] by linarith
qed

lemma cos_inside_edge: "cos (7853 / 10000 :: real) \<le> 7072 / 10000"
proof -
  define x :: real where "x = 7853 / 10000"
  define P where "P = 1 - x\<^sup>2 / 2 + x ^ 4 / 24 - x ^ 6 / 720 + x ^ 8 / 40320 - x ^ 10 / 3628800"
  define R where "R = \<bar>x\<bar> ^ 12 / 479001600"
  have b: "\<bar>cos x - P\<bar> \<le> R"
    unfolding P_def R_def by (rule cos_taylor12)
  have "P + R \<le> 7072 / 10000"
    by (simp add: P_def R_def x_def power_divide)
  with b show ?thesis
    unfolding x_def [symmetric] by linarith
qed

lemma half_fov_less_quarter_pi: "314159 / 400000 < pi / 4"
proof -
  have "sqrt 2 < 1414214 / 1000000"
    by (rule real_less_lsqrt) (simp_all add: power2_eq_square)
  then have "sqrt 2 / 2 < cos (314159 / 400000)"
    using cos_half_fov by linarith
  then have "cos (pi / 4) < cos (314159 / 400000)"
    by (simp only: cos_45)
  moreover have "(314159 / 400000 :: real) \<le> pi"
    using pi_ge_two by linarith
  ultimately show ?thesis
    using cos_mono_less_eq [of "pi / 4" "314159 / 400000"] by simp
qed

text \<open>
  Bounds on \<open>\<pi>\<close> that decide the rounding of \<open>\<pi>/2\<close>: the float nearest to \<open>\<pi>/2\<close> is
  \<open>13176795 / 2^23\<close>, and twice that, the float nearest to \<open>\<pi>\<close>, is greater than \<open>\<pi>\<close>.
\<close>

lemma cos_above_quarter_pi: "cos (13176795 / 16777216 :: real) < sqrt 2 / 2"
proof -
  define x :: real where "x = 13176795 / 16777216"
  define P where "P = 1 - x\<^sup>2 / 2 + x ^ 4 / 24 - x ^ 6 / 720 + x ^ 8 / 40320 - x ^ 10 / 3628800"
  define R where "R = \<bar>x\<bar> ^ 12 / 479001600"
  have b: "\<bar>cos x - P\<bar> \<le> R"
    unfolding P_def R_def by (rule cos_taylor12)
  have "P + R < 70710678118 / 100000000000"
    by (simp add: P_def R_def x_def power_divide)
  moreover have "141421356236 / 100000000000 \<le> sqrt 2"
    by (rule real_le_rsqrt) (simp add: power2_eq_square)
  ultimately show ?thesis
    using b unfolding x_def [symmetric] by linarith
qed

lemma cos_below_quarter_pi: "sqrt 2 / 2 < cos (26353589 / 33554432 :: real)"
proof -
  define x :: real where "x = 26353589 / 33554432"
  define P where "P = 1 - x\<^sup>2 / 2 + x ^ 4 / 24 - x ^ 6 / 720 + x ^ 8 / 40320 - x ^ 10 / 3628800"
  define R where "R = \<bar>x\<bar> ^ 12 / 479001600"
  have b: "\<bar>cos x - P\<bar> \<le> R"
    unfolding P_def R_def by (rule cos_taylor12)
  have "7071067812 / 10000000000 < P - R"
    by (simp add: P_def R_def x_def power_divide)
  moreover have "sqrt 2 \<le> 14142135624 / 10000000000"
    by (rule real_le_lsqrt) (simp_all add: power2_eq_square)
  ultimately show ?thesis
    using b unfolding x_def [symmetric] by linarith
qed

lemma pi_bounds: "26353589 / 8388608 < pi" "pi < 13176795 / 4194304"
proof -
  have "cos (pi / 4) < cos (26353589 / 33554432)"
    using cos_below_quarter_pi by (simp only: cos_45)
  moreover have "(26353589 / 33554432 :: real) \<le> pi"
    using pi_ge_two by linarith
  ultimately have "26353589 / 33554432 < pi / 4"
    using cos_mono_less_eq [of "pi / 4" "26353589 / 33554432"] by simp
  then show "26353589 / 8388608 < pi"
    by simp
  have "cos (13176795 / 16777216) < cos (pi / 4)"
    using cos_above_quarter_pi by (simp only: cos_45)
  moreover have "(13176795 / 16777216 :: real) \<le> pi"
    using pi_ge_two by linarith
  ultimately have "pi / 4 < 13176795 / 16777216"
    using cos_mono_less_eq [of "13176795 / 16777216" "pi / 4"] by simp
  then show "pi < 13176795 / 4194304"
    by simp
qed

lemma round32_half_pi: "round32 (pi / 2) = 13176795 / 8388608"
proof -
  have p: "26353589 / 8388608 < pi" "pi < 13176795 / 4194304"
    by (rule pi_bounds)+
  define y where "y = pi / 2 * 2 ^ 149"
  have y: "y = pi * 2 ^ 22 * 2 ^ 126"
    by (simp add: y_def)
  have "round32 (pi / 2) = of_int 13176795 * 2 ^ 126 / 2 ^ 149"
  proof (rule round32_unique)
    have "(2::real) ^ (23 + 126) = 2 * 2 ^ 22 * 2 ^ 126"
      by simp
    also have "\<dots> \<le> pi * 2 ^ 22 * 2 ^ 126"
      using pi_ge_two by (intro mult_right_mono) simp_all
    finally show "2 ^ (23 + 126) \<le> pi / 2 * 2 ^ 149"
      by (simp only: y y_def [symmetric])
    have "pi * 2 ^ 22 * 2 ^ 126 < 4 * 2 ^ 22 * 2 ^ (126::nat)"
      using pi_less_4 by (intro mult_strict_right_mono) simp_all
    also have "\<dots> = 2 * 2 ^ (23 + 126)"
      by simp
    finally show "pi / 2 * 2 ^ 149 < 2 * 2 ^ (23 + 126)"
      by (simp only: y y_def [symmetric])
    have "pi / 2 * 2 ^ 149 / 2 ^ 126 = pi * 4194304"
      by simp
    moreover have "\<bar>pi * 4194304 - 13176795\<bar> < 1 / 2"
      using p by (simp add: abs_less_iff)
    ultimately show "\<bar>pi / 2 * 2 ^ 149 / 2 ^ 126 - real_of_int 13176795\<bar> < 1 / 2"
      by (simp add: mult.commute)
  qed
  then show ?thesis
    by simp
qed

lemma acos_nearest_zero: "acos_nearest 0 = 13176795 / 8388608"
  by (simp add: acos_nearest_def round32_half_pi)

section \<open>The self-test in exact arithmetic\<close>

lemma CanSeeTarget_in_range:
  assumes "\<not> operator_eq ar t (m_position c)"
    and "GetMagnitude ar (operator_minus ar t (m_position c)) = d"
    and "d \<noteq> 0" and "d \<le> m_viewDistance c"
    and "fl ar (DotProduct ar (m_orientation c) (operator_minus ar t (m_position c)) / d) = q"
    and "- 1 \<le> q" and "q \<le> 1"
  shows "CanSeeTarget ar acos c t \<longleftrightarrow> acos q < fl ar (m_fieldOfView c / 2)"
  using assms by (simp add: CanSeeTarget_def Let_def fdiv_def facos_def)

lemma cam0_exact_sees:
  assumes "1 / 10000 \<le> \<bar>y\<bar>" and "sqrt (x * x + y * y) = d" and "0 < d" and "d \<le> 100"
    and "y / d = q" and "- 1 \<le> q" and "q \<le> 1"
  shows "CanSeeTarget Exact arccos cam0_exact (Vec2D x y) \<longleftrightarrow> arccos q < 314159 / 400000"
proof -
  have v: "operator_minus Exact (Vec2D x y) (m_position cam0_exact) = Vec2D x y"
    by (simp add: operator_minus_def cam0_exact_def Vec2D_def fsub_def)
  have "CanSeeTarget Exact arccos cam0_exact (Vec2D x y)
        \<longleftrightarrow> arccos q < fl Exact (m_fieldOfView cam0_exact / 2)"
  proof (rule CanSeeTarget_in_range)
    show "\<not> operator_eq Exact (Vec2D x y) (m_position cam0_exact)"
      using assms(1)
      by (simp add: operator_eq_def cam0_exact_def Vec2D_def fsub_def MAX_FLOAT_TOLERANCE_def)
    show "GetMagnitude Exact (operator_minus Exact (Vec2D x y) (m_position cam0_exact)) = d"
      unfolding v using assms(2)
      by (simp add: GetMagnitude_def fsqrt_def fadd_def fmul_def Vec2D_def)
    show "d \<noteq> 0"
      using assms(3) by simp
    show "d \<le> m_viewDistance cam0_exact"
      using assms(4) by (simp add: cam0_exact_def)
    show "fl Exact (DotProduct Exact (m_orientation cam0_exact)
            (operator_minus Exact (Vec2D x y) (m_position cam0_exact)) / d) = q"
      unfolding v using assms(5)
      by (simp add: DotProduct_def fadd_def fmul_def Vec2D_def cam0_exact_def)
  qed (use assms in simp_all)
  then show ?thesis
    by (simp add: cam0_exact_def)
qed

lemma sqrt_5000: "sqrt 5000 = 50 * sqrt 2"
proof -
  have "sqrt 5000 = sqrt (50\<^sup>2 * 2)"
    by simp
  also have "\<dots> = 50 * sqrt 2"
    by (simp only: real_sqrt_mult real_sqrt_abs abs_numeral)
  finally show ?thesis .
qed

lemma on_boundary_not_seen:
  assumes "x * x = 2500"
  shows "\<not> CanSeeTarget Exact arccos cam0_exact (Vec2D x 50)"
proof -
  have s2: "1 \<le> sqrt 2"
    by simp
  have "CanSeeTarget Exact arccos cam0_exact (Vec2D x 50) \<longleftrightarrow> arccos (1 / sqrt 2) < 314159 / 400000"
  proof (rule cam0_exact_sees)
    show "sqrt (x * x + 50 * 50) = 50 * sqrt 2"
      by (simp add: assms sqrt_5000)
    show "50 / (50 * sqrt 2) = 1 / sqrt 2"
      by simp
    show "1 / sqrt 2 \<le> 1"
      using s2 by simp
    show "- 1 \<le> 1 / sqrt 2"
      by (rule order_trans [of _ 0]) simp_all
    show "50 * sqrt 2 \<le> 100"
    proof -
      have "sqrt 2 \<le> 2"
        by (rule real_le_lsqrt) simp_all
      then show ?thesis
        by simp
    qed
  qed simp_all
  then show ?thesis
    using half_fov_less_quarter_pi by (simp add: arccos_one_over_sqrt_2)
qed

lemma just_inside_seen:
  assumes "x * x = 2500"
  shows "CanSeeTarget Exact arccos cam0_exact (Vec2D x (501 / 10))"
proof -
  define d where "d = sqrt (x * x + 501 / 10 * (501 / 10))"
  define q where "q = 501 / 10 / d"
  define t :: real where "t = 314159 / 400000"
  have S: "x * x + 501 / 10 * (501 / 10) = 501001 / 100"
    by (simp add: assms)
  have lo: "501 / 10 \<le> d"
    unfolding d_def S by (rule real_le_rsqrt) (simp add: power2_eq_square)
  have hi: "d < 708 / 10"
    unfolding d_def S by (rule real_less_lsqrt) (simp_all add: power2_eq_square)
  from lo have dpos: "0 < d"
    by linarith
  have q1: "q \<le> 1"
    using lo dpos by (simp add: q_def)
  have q0: "0 \<le> q"
    using dpos by (simp add: q_def)
  have "501 / 708 < q"
    using hi dpos by (simp add: q_def field_simps)
  then have cq: "cos t < q"
    using cos_half_fov unfolding t_def by linarith
  have t: "0 \<le> t" "t \<le> pi"
    using pi_ge_two by (simp_all add: t_def)
  have "arccos q < arccos (cos t)"
    using cq q0 q1 by (subst arccos_less_mono) simp_all
  then have "arccos q < t"
    using t by (simp add: arccos_cos)
  moreover have "CanSeeTarget Exact arccos cam0_exact (Vec2D x (501 / 10)) \<longleftrightarrow> arccos q < 314159 / 400000"
  proof (rule cam0_exact_sees)
    show "sqrt (x * x + 501 / 10 * (501 / 10)) = d"
      by (simp only: d_def)
    show "501 / 10 / d = q"
      by (simp only: q_def)
    show "d \<le> 100"
      using hi by simp
  qed (use dpos q0 q1 in simp_all)
  ultimately show ?thesis
    by (simp add: t_def)
qed


section \<open>The self-test in binary32 arithmetic\<close>

text \<open>
  The results of the self-test at the edge of the field of view hold with every
  \<^verbatim>\<open>acos\<close> of relative error at most \<open>2^-22\<close> (two units in the last place and more),
  which lemma \<open>acos_nearest_accurate\<close> shows of the correctly rounded one.
\<close>

lemma round32_values:
  "round32 1 = 1"
  "round32 50 = 50"
  "round32 (- 50) = - 50"
  "round32 2500 = 2500"
  "round32 5000 = 5000"
  "round32 (501 / 10) = 6566707 / 131072"
  "round32 (6566707 / 131072) = 6566707 / 131072"
  "round32 (1285125 / 512) = 1285125 / 512"
  "round32 (2565125 / 512) = 2565125 / 512"
  "round32 (314159 / 100000) = 823549 / 262144"
  "round32 (823549 / 524288) = 823549 / 524288"
  "round32 (823549 / 1048576) = 823549 / 1048576"
  by code_simp+

lemma round32_square: "round32 (6566707 / 131072 * (6566707 / 131072)) = 1285125 / 512"
  by code_simp

lemma cam0_Binary32: "cam0 Binary32 = Some cam0_binary32"
proof -
  have m: "GetMagnitude Binary32 (Vec2D 0 1) = 1"
    by (simp add: GetMagnitude_def fsqrt_def fadd_def fmul_def Vec2D_def round32_zero round32_values)
  have n: "GetNormalized Binary32 (Vec2D 0 1) = Some (Vec2D 0 1)"
    by (simp add: GetNormalized_Some m) (simp add: Vec2D_def round32_zero round32_values)
  have f: "round32 (PI_F Binary32 / 2) = 823549 / 524288"
    by (simp add: PI_F_def round32_values)
  show ?thesis
    by (simp add: cam0_def Camera2D_def SetOrientation_def n f cam0_binary32_def)
qed

lemma cam0_binary32_sees:
  assumes x: "round32 x = x" and y: "round32 y = y" and far: "1 / 10000 \<le> \<bar>y\<bar>"
    and s: "round32 (round32 (x * x) + round32 (y * y)) = s"
    and d: "round32 (sqrt s) = d" "0 < d" "d \<le> 100"
    and q: "round32 (y / d) = q" "- 1 \<le> q" "q \<le> 1"
  shows "CanSeeTarget Binary32 acos cam0_binary32 (Vec2D x y) \<longleftrightarrow> acos q < 823549 / 1048576"
proof -
  have v: "operator_minus Binary32 (Vec2D x y) (m_position cam0_binary32) = Vec2D x y"
    by (simp add: operator_minus_def cam0_binary32_def Vec2D_def fsub_def x y)
  have "CanSeeTarget Binary32 acos cam0_binary32 (Vec2D x y)
        \<longleftrightarrow> acos q < fl Binary32 (m_fieldOfView cam0_binary32 / 2)"
  proof (rule CanSeeTarget_in_range)
    have "MAX_FLOAT_TOLERANCE Binary32 \<le> \<bar>y\<bar>"
      using far by (simp add: MAX_FLOAT_TOLERANCE_def round32_tolerance)
    then show "\<not> operator_eq Binary32 (Vec2D x y) (m_position cam0_binary32)"
      by (simp add: operator_eq_def cam0_binary32_def Vec2D_def fsub_def y)
    show "GetMagnitude Binary32 (operator_minus Binary32 (Vec2D x y) (m_position cam0_binary32)) = d"
      unfolding v by (simp add: GetMagnitude_def fsqrt_def fadd_def fmul_def Vec2D_def s d)
    show "d \<noteq> 0"
      using d(2) by simp
    show "d \<le> m_viewDistance cam0_binary32"
      using d(3) by (simp add: cam0_binary32_def)
    show "fl Binary32 (DotProduct Binary32 (m_orientation cam0_binary32)
            (operator_minus Binary32 (Vec2D x y) (m_position cam0_binary32)) / d) = q"
      unfolding v
      by (simp add: DotProduct_def fadd_def fmul_def Vec2D_def cam0_binary32_def round32_zero y q)
  qed (use q in simp_all)
  then show ?thesis
    by (simp add: cam0_binary32_def round32_values)
qed

lemma binary32_on_boundary_not_seen:
  assumes x: "round32 x = x" and xx: "x * x = 2500"
    and acc: "\<forall>q. - 1 \<le> q \<and> q \<le> 1 \<longrightarrow> \<bar>acos q - arccos q\<bar> \<le> \<bar>arccos q\<bar> / 2 ^ 22 + 1 / 2 ^ 150"
  shows "\<not> CanSeeTarget Binary32 acos cam0_binary32 (Vec2D x 50)"
proof -
  define r where "r = sqrt 5000"
  define d where "d = round32 r"
  define p where "p = 50 / d"
  define q where "q = round32 p"
  define a where "a = arccos q"
  define t :: real where "t = 7853978 / 10000000"
  have r: "70710678 / 1000000 \<le> r" "r \<le> 70710679 / 1000000"
    unfolding r_def
    by (rule real_le_rsqrt, simp add: power2_eq_square, rule real_le_lsqrt)
      (simp_all add: power2_eq_square)
  have "\<bar>d - r\<bar> \<le> \<bar>r\<bar> / 2 ^ 24 + 1 / 2 ^ 150"
    unfolding d_def by (rule round32_error)
  with r have d: "70710673 / 1000000 \<le> d" "d \<le> 100"
    unfolding two_powers by argo+
  then have dpos: "0 < d"
    by linarith
  have "50 \<le> 70710684 / 100000000 * d"
    using d(1) by linarith
  then have p: "p \<le> 70710684 / 100000000" "0 \<le> p"
    using dpos by (simp_all add: p_def field_simps)
  have "\<bar>q - p\<bar> \<le> \<bar>p\<bar> / 2 ^ 24 + 1 / 2 ^ 150"
    unfolding q_def by (rule round32_error)
  with p have q1: "q \<le> 7071069 / 10000000"
    unfolding two_powers by argo
  have q0: "0 \<le> q"
    unfolding q_def using p(2) by (rule round32_nonneg)
  have t: "0 \<le> t" "t \<le> pi"
    using pi_ge_two by (simp_all add: t_def)
  have "q < cos t"
    using q1 cos_below_edge unfolding t_def by linarith
  then have "arccos (cos t) < arccos q"
    using q0 q1 by (subst arccos_less_mono) simp_all
  then have a: "t < a"
    using t by (simp add: arccos_cos a_def)
  have "- 1 \<le> q \<and> q \<le> 1"
    using q0 q1 by linarith
  with acc have "\<bar>acos q - a\<bar> \<le> \<bar>a\<bar> / 2 ^ 22 + 1 / 2 ^ 150"
    unfolding a_def by blast
  with a have "823549 / 1048576 \<le> acos q"
    unfolding t_def two_powers by argo
  moreover have "CanSeeTarget Binary32 acos cam0_binary32 (Vec2D x 50)
      \<longleftrightarrow> acos q < 823549 / 1048576"
  proof (rule cam0_binary32_sees)
    show "round32 (round32 (x * x) + round32 (50 * 50)) = 5000"
      by (simp add: xx round32_values)
    show "round32 (sqrt 5000) = d"
      by (simp only: d_def r_def)
    show "round32 (50 / d) = q"
      by (simp only: q_def p_def)
    show "q \<le> 1"
      using q1 by linarith
    show "- 1 \<le> q"
      using q0 by linarith
  qed (use x dpos d in \<open>simp_all add: round32_values\<close>)
  ultimately show ?thesis
    by simp
qed

lemma binary32_just_inside_seen:
  assumes x: "round32 x = x" and xx: "x * x = 2500"
    and acc: "\<forall>q. - 1 \<le> q \<and> q \<le> 1 \<longrightarrow> \<bar>acos q - arccos q\<bar> \<le> \<bar>arccos q\<bar> / 2 ^ 22 + 1 / 2 ^ 150"
  shows "CanSeeTarget Binary32 acos cam0_binary32 (Vec2D x (6566707 / 131072))"
proof -
  define r where "r = sqrt (2565125 / 512)"
  define d where "d = round32 r"
  define p where "p = 6566707 / 131072 / d"
  define q where "q = round32 p"
  define a where "a = arccos q"
  define t :: real where "t = 7853 / 10000"
  have r: "7078 / 100 \<le> r" "r \<le> 7079 / 100"
    unfolding r_def
    by (rule real_le_rsqrt, simp add: power2_eq_square, rule real_le_lsqrt)
      (simp_all add: power2_eq_square)
  have "\<bar>d - r\<bar> \<le> \<bar>r\<bar> / 2 ^ 24 + 1 / 2 ^ 150"
    unfolding d_def by (rule round32_error)
  with r have d: "7077 / 100 \<le> d" "d \<le> 708 / 10"
    unfolding two_powers by argo+
  then have dpos: "0 < d"
    by linarith
  have "7076 / 10000 * d \<le> 6566707 / 131072" "6566707 / 131072 \<le> 708 / 1000 * d"
    using d by linarith+
  then have p: "7076 / 10000 \<le> p" "p \<le> 708 / 1000"
    using dpos by (simp_all add: p_def field_simps)
  have "\<bar>q - p\<bar> \<le> \<bar>p\<bar> / 2 ^ 24 + 1 / 2 ^ 150"
    unfolding q_def by (rule round32_error)
  with p have q: "7075 / 10000 \<le> q" "q \<le> 1"
    unfolding two_powers by argo+
  have t: "0 \<le> t" "t \<le> pi"
    using pi_ge_two by (simp_all add: t_def)
  have "cos t < q"
    using q(1) cos_inside_edge unfolding t_def by linarith
  then have "arccos q < arccos (cos t)"
    using q by (subst arccos_less_mono) simp_all
  then have a: "a < t"
    using t by (simp add: arccos_cos a_def)
  have a0: "0 \<le> a"
    unfolding a_def using q by (intro arccos_lbound) linarith+
  have "- 1 \<le> q \<and> q \<le> 1"
    using q by linarith
  with acc have "\<bar>acos q - a\<bar> \<le> \<bar>a\<bar> / 2 ^ 22 + 1 / 2 ^ 150"
    unfolding a_def by blast
  with a a0 have "acos q < 823549 / 1048576"
    unfolding t_def two_powers by argo
  moreover have "CanSeeTarget Binary32 acos cam0_binary32 (Vec2D x (6566707 / 131072))
      \<longleftrightarrow> acos q < 823549 / 1048576"
  proof (rule cam0_binary32_sees)
    show "round32 (round32 (x * x) + round32 (6566707 / 131072 * (6566707 / 131072))) = 2565125 / 512"
      by (simp only: xx round32_square round32_values) (simp add: round32_values)
    show "round32 (sqrt (2565125 / 512)) = d"
      by (simp only: d_def r_def)
    show "round32 (6566707 / 131072 / d) = q"
      by (simp only: q_def p_def)
    show "- 1 \<le> q"
      using q(1) by linarith
    show "d \<le> 100"
      using d(2) by linarith
  qed (use x dpos q in \<open>simp_all add: round32_values\<close>)
  ultimately show ?thesis
    by simp
qed

lemma self_test_Binary32:
  assumes "\<forall>q. - 1 \<le> q \<and> q \<le> 1 \<longrightarrow> \<bar>acos q - arccos q\<bar> \<le> \<bar>arccos q\<bar> / 2 ^ 22 + 1 / 2 ^ 150"
  shows "\<not> CanSeeTarget Binary32 acos cam0_binary32 vec12 \<and>
    CanSeeTarget Binary32 acos cam0_binary32 (vec13 Binary32) \<and>
    \<not> CanSeeTarget Binary32 acos cam0_binary32 vec14 \<and>
    CanSeeTarget Binary32 acos cam0_binary32 (vec15 Binary32)"
  using assms
  by (simp add: vec12_def vec13_def vec14_def vec15_def round32_values
      binary32_on_boundary_not_seen binary32_just_inside_seen)

lemma self_test_Exact:
  "\<not> CanSeeTarget Exact arccos cam0_exact vec12 \<and> CanSeeTarget Exact arccos cam0_exact (vec13 Exact) \<and>
   \<not> CanSeeTarget Exact arccos cam0_exact vec14 \<and> CanSeeTarget Exact arccos cam0_exact (vec15 Exact)"
  by (simp add: vec12_def vec13_def vec14_def vec15_def on_boundary_not_seen just_inside_seen)

section \<open>An underflow\<close>

lemma tiny_squares:
  "fadd Binary32 (fmul Binary32 (m_x (Vec2D (1 / 2 ^ 100) 0)) (m_x (Vec2D (1 / 2 ^ 100) 0)))
     (fmul Binary32 (m_y (Vec2D (1 / 2 ^ 100) 0)) (m_y (Vec2D (1 / 2 ^ 100) 0))) = 0"
  by code_simp

section \<open>The strict test at the edge of the field of view\<close>

text \<open>
  The angular test is strict, and it is a test of the angle that \<^verbatim>\<open>acos\<close> returned: a target
  that is in range and not at the camera's position is seen exactly when \<^verbatim>\<open>acos\<close> returned
  a number less than half the field of view. It is not seen when \<^verbatim>\<open>acos\<close> returned half
  the field of view itself, nor when it returned a NaN. In exact arithmetic, and in
  binary32 arithmetic with the correctly rounded \<^verbatim>\<open>acos\<close>, \<^verbatim>\<open>cam0\<close> does not see \<open>(50, 50)\<close> and
  \<open>(-50, 50)\<close> and sees \<open>(50, 50.1)\<close> and \<open>(-50, 50.1)\<close>, as the self-test expects.
\<close>

lemma CanSeeTarget_strict:
  "(let v = operator_minus ar t (m_position c); d = GetMagnitude ar v;
        q = fl ar (DotProduct ar (m_orientation c) v / d)
    in (CanSeeTarget ar acos c t \<longleftrightarrow>
          \<not> operator_eq ar t (m_position c) \<and> d \<le> m_viewDistance c \<and>
          (\<exists>a. facos acos q = Some a \<and> a < fl ar (m_fieldOfView c / 2))) \<and>
       (facos acos q = Some (fl ar (m_fieldOfView c / 2)) \<longrightarrow> \<not> CanSeeTarget ar acos c t) \<and>
       (facos acos q = None \<longrightarrow> \<not> CanSeeTarget ar acos c t))"
proof -
  define v where "v = operator_minus ar t (m_position c)"
  define d where "d = GetMagnitude ar v"
  define q where "q = fl ar (DotProduct ar (m_orientation c) v / d)"
  have iff: "CanSeeTarget ar acos c t \<longleftrightarrow>
          \<not> operator_eq ar t (m_position c) \<and> d \<le> m_viewDistance c \<and>
          (\<exists>a. facos acos q = Some a \<and> a < fl ar (m_fieldOfView c / 2))"
  proof (cases "operator_eq ar t (m_position c)")
    case True
    then show ?thesis
      by (simp add: CanSeeTarget_def)
  next
    case False
    then have "d \<noteq> 0"
      using distance_pos [of ar t "m_position c"] by (simp add: d_def v_def)
    with False show ?thesis
      by (auto simp: CanSeeTarget_def Let_def fdiv_def d_def [symmetric] v_def [symmetric]
          q_def [symmetric] split: option.splits)
  qed
  then show ?thesis
    by (simp add: Let_def v_def d_def q_def)
qed

text \<open>
  With a field of view of exactly \<open>\<pi>/2\<close>, in exact arithmetic, the target \<open>(50, 50)\<close> is on
  the boundary: its angle \<open>\<pi>/4\<close> equals half the field of view, and it is not seen.
\<close>

lemma on_exact_boundary_not_seen:
  "arccos (DotProduct Exact (m_orientation boundary_cam)
       (operator_minus Exact vec12 (m_position boundary_cam))
       / GetMagnitude Exact (operator_minus Exact vec12 (m_position boundary_cam)))
     = m_fieldOfView boundary_cam / 2 \<and>
   \<not> CanSeeTarget Exact arccos boundary_cam vec12"
proof -
  have v: "operator_minus Exact vec12 (m_position boundary_cam) = Vec2D 50 50"
    by (simp add: operator_minus_def boundary_cam_def vec12_def Vec2D_def fsub_def)
  have d: "GetMagnitude Exact (Vec2D 50 50) = 50 * sqrt 2"
    by (simp add: GetMagnitude_def fsqrt_def fadd_def fmul_def Vec2D_def sqrt_5000)
  have dot: "DotProduct Exact (m_orientation boundary_cam) (Vec2D 50 50) = 50"
    by (simp add: DotProduct_def fadd_def fmul_def Vec2D_def boundary_cam_def)
  have s2: "1 \<le> sqrt 2"
    by simp
  have q: "50 / (50 * sqrt 2) = 1 / sqrt 2"
    by simp
  have q1: "1 / sqrt 2 \<le> 1"
    using s2 by simp
  have q0: "- 1 \<le> 1 / sqrt 2"
    by (rule order_trans [of _ 0]) simp_all
  have h: "arccos (1 / sqrt 2) = m_fieldOfView boundary_cam / 2"
    by (simp add: arccos_one_over_sqrt_2 boundary_cam_def)
  have "CanSeeTarget Exact arccos boundary_cam vec12
      \<longleftrightarrow> arccos (1 / sqrt 2) < fl Exact (m_fieldOfView boundary_cam / 2)"
  proof (rule CanSeeTarget_in_range)
    show "\<not> operator_eq Exact vec12 (m_position boundary_cam)"
      by (simp add: operator_eq_def boundary_cam_def vec12_def Vec2D_def fsub_def
          MAX_FLOAT_TOLERANCE_def)
    show "GetMagnitude Exact (operator_minus Exact vec12 (m_position boundary_cam)) = 50 * sqrt 2"
      by (simp only: v d)
    show "50 * sqrt 2 \<le> m_viewDistance boundary_cam"
    proof -
      have "sqrt 2 \<le> 2"
        by (rule real_le_lsqrt) simp_all
      then show ?thesis
        by (simp add: boundary_cam_def)
    qed
    show "fl Exact (DotProduct Exact (m_orientation boundary_cam)
            (operator_minus Exact vec12 (m_position boundary_cam)) / (50 * sqrt 2)) = 1 / sqrt 2"
      by (simp only: v dot fl.simps q)
  qed (use q0 q1 in simp_all)
  with h show ?thesis
    by (simp add: v d dot)
qed

lemma self_test_edge:
  "cam0 Exact = Some cam0_exact \<and>
   \<not> CanSeeTarget Exact arccos cam0_exact vec12 \<and> CanSeeTarget Exact arccos cam0_exact (vec13 Exact) \<and>
   \<not> CanSeeTarget Exact arccos cam0_exact vec14 \<and> CanSeeTarget Exact arccos cam0_exact (vec15 Exact) \<and>
   cam0 Binary32 = Some cam0_binary32 \<and>
   \<not> CanSeeTarget Binary32 acos_nearest cam0_binary32 vec12 \<and>
   CanSeeTarget Binary32 acos_nearest cam0_binary32 (vec13 Binary32) \<and>
   \<not> CanSeeTarget Binary32 acos_nearest cam0_binary32 vec14 \<and>
   CanSeeTarget Binary32 acos_nearest cam0_binary32 (vec15 Binary32)"
  using self_test_Exact self_test_Binary32 [of acos_nearest] acos_nearest_accurate
  by (simp add: cam0_Exact cam0_Binary32)

lemma sqrt_3721: "sqrt 3721 = 61"
  using real_sqrt_abs [of 61] by simp

lemma round32_ahead:
  "round32 11 = 11" "round32 60 = 60" "round32 61 = 61"
  "round32 121 = 121" "round32 3600 = 3600" "round32 3721 = 3721"
  "round32 (11 / 61) = 6050799 / 33554432"
  "round32 (60 / 61) = 4125545 / 4194304"
  by code_simp+

lemma ahead_cam_constructed:
  "Camera2D Binary32 (Vec2D 0 0) ahead_target (fl Binary32 (PI_F Binary32 / 2)) 100 = Some ahead_cam"
proof -
  have m: "GetMagnitude Binary32 ahead_target = 61"
    by (simp add: ahead_target_def GetMagnitude_def fsqrt_def fadd_def fmul_def Vec2D_def
        round32_ahead sqrt_3721)
  have n: "GetNormalized Binary32 ahead_target
      = Some (Vec2D (6050799 / 33554432) (4125545 / 4194304))"
    by (simp add: GetNormalized_Some m) (simp add: ahead_target_def Vec2D_def round32_ahead)
  have f: "round32 (PI_F Binary32 / 2) = 823549 / 524288"
    by (simp add: PI_F_def round32_values)
  show ?thesis
    by (simp add: Camera2D_def SetOrientation_def n f ahead_cam_def)
qed

lemma ahead_cam_exact_constructed:
  "Camera2D Exact (Vec2D 0 0) ahead_target (fl Exact (PI_F Exact / 2)) 100 = Some ahead_cam_exact"
proof -
  have m: "GetMagnitude Exact ahead_target = 61"
    by (simp add: ahead_target_def GetMagnitude_def fsqrt_def fadd_def fmul_def Vec2D_def sqrt_3721)
  have n: "GetNormalized Exact ahead_target = Some (Vec2D (11 / 61) (60 / 61))"
    by (simp add: GetNormalized_Some m) (simp add: ahead_target_def Vec2D_def)
  show ?thesis
    by (simp add: Camera2D_def SetOrientation_def n ahead_cam_exact_def PI_F_def)
qed

lemma ahead_vector:
  "operator_minus Binary32 ahead_target (m_position ahead_cam) = ahead_target"
  "operator_minus Exact ahead_target (m_position ahead_cam_exact) = ahead_target"
  by (simp_all add: operator_minus_def ahead_cam_def ahead_cam_exact_def ahead_target_def Vec2D_def
      fsub_def round32_ahead)

lemma ahead_distance:
  "GetMagnitude Binary32 ahead_target = 61" "GetMagnitude Exact ahead_target = 61"
  by (simp_all add: ahead_target_def GetMagnitude_def fsqrt_def fadd_def fmul_def Vec2D_def
      round32_ahead sqrt_3721)

lemma ahead_quotient:
  "fdiv Binary32 (DotProduct Binary32 (Vec2D (6050799 / 33554432) (4125545 / 4194304)) (Vec2D 11 60)) 61
     = Some (8388609 / 8388608)"
  by code_simp

lemma ahead_not_at_position:
  "\<not> operator_eq Binary32 ahead_target (m_position ahead_cam)"
  "\<not> operator_eq Exact ahead_target (m_position ahead_cam_exact)"
  by (simp_all add: operator_eq_def ahead_cam_def ahead_cam_exact_def ahead_target_def Vec2D_def
      fsub_def MAX_FLOAT_TOLERANCE_def round32_tolerance round32_ahead)

text \<open>
  Claim C1 says that a target strictly inside the field of view is seen, the angular test
  being \<open>angleToTarget < fieldOfView / 2\<close>. \<^verbatim>\<open>CanSeeTarget\<close> breaks it for a target straight
  ahead. The camera is built at the origin with orientation \<open>(11, 60)\<close>, field of view
  \<^verbatim>\<open>PI_F / 2\<close> and view distance 100, and the target is \<open>(11, 60)\<close> itself: at distance 61, in
  range, at the angle 0. In binary32 arithmetic the quotient of the dot product by the
  distance is rounded to \<open>1 + 2^-23\<close>, \<^verbatim>\<open>acos\<close> of it is a NaN whatever the library, and the
  target is not seen. In exact arithmetic the quotient is 1, the angle is 0 and the target
  is seen.
\<close>

theorem canSeeTarget_dead_ahead_not_seen:
  "Camera2D Binary32 (Vec2D 0 0) ahead_target (fl Binary32 (PI_F Binary32 / 2)) 100 = Some ahead_cam \<and>
   \<not> operator_eq Binary32 ahead_target (m_position ahead_cam) \<and>
   GetMagnitude Binary32 (operator_minus Binary32 ahead_target (m_position ahead_cam)) = 61 \<and>
   GetMagnitude Binary32 (operator_minus Binary32 ahead_target (m_position ahead_cam))
     \<le> m_viewDistance ahead_cam \<and>
   0 < fl Binary32 (m_fieldOfView ahead_cam / 2) \<and>
   fdiv Binary32 (DotProduct Binary32 (m_orientation ahead_cam)
       (operator_minus Binary32 ahead_target (m_position ahead_cam))) 61 = Some (8388609 / 8388608) \<and>
   facos acos (8388609 / 8388608) = None \<and>
   \<not> CanSeeTarget Binary32 acos ahead_cam ahead_target \<and>
   Camera2D Exact (Vec2D 0 0) ahead_target (fl Exact (PI_F Exact / 2)) 100 = Some ahead_cam_exact \<and>
   CanSeeTarget Exact arccos ahead_cam_exact ahead_target"
proof -
  have o: "m_orientation ahead_cam = Vec2D (6050799 / 33554432) (4125545 / 4194304)"
    "ahead_target = Vec2D 11 60"
    by (simp_all add: ahead_cam_def ahead_target_def)
  have q: "fdiv Binary32 (DotProduct Binary32 (m_orientation ahead_cam)
       (operator_minus Binary32 ahead_target (m_position ahead_cam))) 61 = Some (8388609 / 8388608)"
    unfolding ahead_vector unfolding o by (rule ahead_quotient)
  have nan: "facos acos (8388609 / 8388608) = None"
    by (simp add: facos_def)
  have range: "GetMagnitude Binary32 (operator_minus Binary32 ahead_target (m_position ahead_cam))
     \<le> m_viewDistance ahead_cam"
    by (simp add: ahead_vector ahead_distance) (simp add: ahead_cam_def)
  have fov: "0 < fl Binary32 (m_fieldOfView ahead_cam / 2)"
    by (simp add: ahead_cam_def round32_values)
  have unseen: "\<not> CanSeeTarget Binary32 acos ahead_cam ahead_target"
    using q nan by (simp add: CanSeeTarget_def Let_def ahead_vector ahead_distance)
  have seen: "CanSeeTarget Exact arccos ahead_cam_exact ahead_target"
    using ahead_not_at_position(2)
    by (simp add: CanSeeTarget_def Let_def ahead_vector ahead_distance)
      (simp add: ahead_cam_exact_def ahead_target_def DotProduct_def fadd_def fmul_def fdiv_def
        facos_def Vec2D_def)
  have dist: "GetMagnitude Binary32 (operator_minus Binary32 ahead_target (m_position ahead_cam)) = 61"
    by (simp add: ahead_vector ahead_distance)
  from ahead_cam_constructed ahead_not_at_position(1) dist range fov q nan unseen
    ahead_cam_exact_constructed seen
  show ?thesis
    by blast
qed

section \<open>The range check of CanSeeTarget\<close>

text \<open>
  Claim C2. \<^verbatim>\<open>CanSeeTarget\<close> is false for every target whose distance from the camera
  exceeds the view distance. A target at a distance equal to the view distance is in
  range: the answer for it is the one a camera with any larger view distance gives, so
  the range check rejects nothing there (the comparison is \<open>\<le>\<close>).
\<close>

theorem canSeeTarget_range_check:
  "(m_viewDistance c < GetMagnitude ar (operator_minus ar targetPosition (m_position c)) \<longrightarrow>
      \<not> CanSeeTarget ar acos c targetPosition) \<and>
   (GetMagnitude ar (operator_minus ar targetPosition (m_position c)) = m_viewDistance c \<longrightarrow>
      m_viewDistance c \<le> farther \<longrightarrow>
      CanSeeTarget ar acos c targetPosition
        = CanSeeTarget ar acos (SetViewDistance c farther) targetPosition)"
  by (auto simp: CanSeeTarget_def Let_def SetViewDistance_def split: option.splits)

text \<open>
  The self-test's target \<open>(0, 300)\<close> is out of the range 100 of \<^verbatim>\<open>cam0\<close>; the target
  \<open>(0, 100)\<close> is at the view distance exactly and is seen, as it is with view distance 200.
\<close>

theorem canSeeTarget_range_check_witness:
  "m_viewDistance cam0_exact < GetMagnitude Exact (operator_minus Exact vec7 (m_position cam0_exact)) \<and>
   \<not> CanSeeTarget Exact arccos cam0_exact vec7 \<and>
   GetMagnitude Exact (operator_minus Exact (Vec2D 0 100) (m_position cam0_exact)) = m_viewDistance cam0_exact \<and>
   CanSeeTarget Exact arccos cam0_exact (Vec2D 0 100) \<and>
   CanSeeTarget Exact arccos (SetViewDistance cam0_exact 200) (Vec2D 0 100)"
proof -
  have far: "m_viewDistance cam0_exact
      < GetMagnitude Exact (operator_minus Exact vec7 (m_position cam0_exact))"
    by (simp add: cam0_exact_def vec7_def GetMagnitude_def operator_minus_def fsqrt_def fadd_def
        fmul_def fsub_def Vec2D_def sqrt_90000)
  have edge: "GetMagnitude Exact (operator_minus Exact (Vec2D 0 100) (m_position cam0_exact))
      = m_viewDistance cam0_exact"
    by (simp add: cam0_exact_def GetMagnitude_def operator_minus_def fsqrt_def fadd_def fmul_def
        fsub_def Vec2D_def sqrt_10000)
  have le: "m_viewDistance cam0_exact \<le> 200"
    by (simp add: cam0_exact_def)
  have seen: "CanSeeTarget Exact arccos cam0_exact (Vec2D 0 100)"
    by (simp add: CanSeeTarget_def Let_def cam0_exact_def operator_eq_def operator_minus_def
        GetMagnitude_def DotProduct_def fsqrt_def fadd_def fmul_def fsub_def fdiv_def facos_def
        MAX_FLOAT_TOLERANCE_def Vec2D_def sqrt_10000)
  from far edge le seen
    canSeeTarget_range_check [where c = cam0_exact and ar = Exact and acos = arccos
      and targetPosition = vec7 and farther = 200]
    canSeeTarget_range_check [where c = cam0_exact and ar = Exact and acos = arccos
      and targetPosition = "Vec2D 0 100" and farther = 200]
  show ?thesis
    by blast
qed

section \<open>The camera's own position\<close>

text \<open>
  Claim C3. For every camera state, \<^verbatim>\<open>CanSeeTarget\<close> is false when the target equals the
  camera's position under \<^verbatim>\<open>operator==\<close> (both components closer than the tolerance
  0.0001); in particular a camera never sees its own position.
\<close>

theorem canSeeTarget_own_position:
  "(operator_eq ar targetPosition (m_position c) \<longrightarrow> \<not> CanSeeTarget ar acos c targetPosition) \<and>
   \<not> CanSeeTarget ar acos c (m_position c)"
  by (simp add: CanSeeTarget_def operator_eq_refl)

theorem canSeeTarget_own_position_witness:
  "operator_eq Exact (Vec2D (1 / 20000) 0) (m_position cam0_exact) \<and>
   \<not> CanSeeTarget Exact arccos cam0_exact (Vec2D (1 / 20000) 0)"
proof -
  have h: "operator_eq Exact (Vec2D (1 / 20000) 0) (m_position cam0_exact)"
    by (simp add: operator_eq_def fsub_def MAX_FLOAT_TOLERANCE_def Vec2D_def cam0_exact_def)
  with canSeeTarget_own_position [where ar = Exact and acos = arccos
      and targetPosition = "Vec2D (1 / 20000) 0" and c = cam0_exact]
  show ?thesis
    by simp
qed

section \<open>The stored orientation\<close>

text \<open>
  Claim C4 says that the stored orientation is always a unit vector, as the comments of
  the source do (\<open>enforce orientation vector to be a unit vector\<close> in \<^verbatim>\<open>SetOrientation\<close>,
  \<open>orientation is a unit vector\<close> in \<^verbatim>\<open>CanSeeTarget\<close>). The code breaks it for the zero
  vector: the constructor \<^verbatim>\<open>Camera2D(Vec2D(0, 0), Vec2D(0, 0), 4, 100)\<close> and
  \<^verbatim>\<open>SetOrientation(Vec2D(0, 0))\<close> succeed and store the zero vector, the raw input, whose
  magnitude is 0 and not 1, in both arithmetics.
\<close>

theorem orientation_zero_not_unit:
  "Camera2D Binary32 (Vec2D 0 0) (Vec2D 0 0) 4 100 = Some zero_cam \<and>
   SetOrientation Binary32 cam0_exact (Vec2D 0 0) = Some (cam0_exact\<lparr>m_orientation := Vec2D 0 0\<rparr>) \<and>
   GetMagnitude Binary32 (m_orientation zero_cam) = 0 \<and>
   Camera2D Exact (Vec2D 0 0) (Vec2D 0 0) 4 100 = Some zero_cam \<and>
   SetOrientation Exact cam0_exact (Vec2D 0 0) = Some (cam0_exact\<lparr>m_orientation := Vec2D 0 0\<rparr>) \<and>
   GetMagnitude Exact (m_orientation zero_cam) = 0"
  by (simp add: zero_cam_constructed SetOrientation_def GetNormalized_Some GetMagnitude_zero)
    (simp add: zero_cam_def GetMagnitude_zero)

section \<open>Sign correction in the constructor only\<close>

text \<open>
  Claim C5. The constructor of \<^verbatim>\<open>Camera2D\<close> stores the absolute values of its field of view
  and view distance arguments; \<^verbatim>\<open>SetFieldOfView\<close> stores its argument as it is.
\<close>

theorem constructor_abs_setter_raw:
  "(\<exists>c. Camera2D ar position orientation fieldOfView viewDistance = Some c \<and>
        m_fieldOfView c = \<bar>fieldOfView\<bar> \<and> m_viewDistance c = \<bar>viewDistance\<bar>) \<and>
   m_fieldOfView (SetFieldOfView c0 angleRad) = angleRad"
  by (simp add: Camera2D_def SetOrientation_def GetNormalized_Some SetFieldOfView_def)

section \<open>Normalizing the zero vector\<close>

text \<open>
  Claim C6. \<^verbatim>\<open>GetNormalized\<close> of the zero vector is the zero vector, and for no input does
  \<^verbatim>\<open>GetNormalized\<close> divide by zero: it always returns a vector of numbers.
\<close>

theorem normalized_zero_vector:
  "GetNormalized ar (Vec2D 0 0) = Some (Vec2D 0 0) \<and> GetNormalized ar v \<noteq> None"
  by (simp add: GetNormalized_Some GetMagnitude_zero)

section \<open>The magnitude of a normalized vector\<close>

text \<open>
  Claim C7, as stated, fails in binary32 arithmetic: the squares of the components of
  the non-zero vector \<open>(2^-100, 0)\<close> underflow to 0, so its magnitude is 0,
  \<^verbatim>\<open>GetNormalized\<close> returns the zero vector, and the magnitude of that is 0.
\<close>

theorem normalized_magnitude_underflow:
  "m_x (Vec2D (1 / 2 ^ 100) 0) \<noteq> 0 \<and>
   GetNormalized Binary32 (Vec2D (1 / 2 ^ 100) 0) = Some (Vec2D 0 0) \<and>
   GetMagnitude Binary32 (Vec2D 0 0) = 0 \<and>
   \<not> \<bar>GetMagnitude Binary32 (Vec2D 0 0) - 1\<bar> < MAX_FLOAT_TOLERANCE Binary32"
proof -
  have "GetMagnitude Binary32 (Vec2D (1 / 2 ^ 100) 0) = 0"
    by (simp only: GetMagnitude_def tiny_squares fsqrt_def real_sqrt_zero fl.simps round32_zero)
  then show ?thesis
    by (simp add: GetNormalized_Some GetMagnitude_zero MAX_FLOAT_TOLERANCE_def round32_tolerance)
      (simp add: Vec2D_def)
qed

text \<open>
  Claim C7, amended. In exact arithmetic the magnitude of the normalized form of every
  non-zero vector is 1. In binary32 arithmetic it is within the tolerance 0.0001 of 1
  for every vector whose larger component has an absolute value between \<open>2^-60\<close> and
  \<open>2^60\<close>.
\<close>

theorem normalized_magnitude_in_range:
  "(m_x v \<noteq> 0 \<or> m_y v \<noteq> 0 \<longrightarrow> (\<exists>n. GetNormalized Exact v = Some n \<and> GetMagnitude Exact n = 1)) \<and>
   ((1 / 2 ^ 60 \<le> \<bar>m_x v\<bar> \<or> 1 / 2 ^ 60 \<le> \<bar>m_y v\<bar>) \<and> \<bar>m_x v\<bar> \<le> 2 ^ 60 \<and> \<bar>m_y v\<bar> \<le> 2 ^ 60 \<longrightarrow>
      (\<exists>n. GetNormalized Binary32 v = Some n \<and>
           \<bar>GetMagnitude Binary32 n - 1\<bar> < MAX_FLOAT_TOLERANCE Binary32))"
  using exact_normalized_unit [of v] normalized_near_unit [of v Binary32] by blast

theorem normalized_magnitude_in_range_witness:
  "m_x vec5 \<noteq> 0 \<and>
   (\<exists>n. GetNormalized Exact vec5 = Some n \<and> GetMagnitude Exact n = 1) \<and>
   ((1 / 2 ^ 60 \<le> \<bar>m_x vec5\<bar> \<or> 1 / 2 ^ 60 \<le> \<bar>m_y vec5\<bar>) \<and> \<bar>m_x vec5\<bar> \<le> 2 ^ 60 \<and> \<bar>m_y vec5\<bar> \<le> 2 ^ 60) \<and>
   (\<exists>n. GetNormalized Binary32 vec5 = Some n \<and>
        \<bar>GetMagnitude Binary32 n - 1\<bar> < MAX_FLOAT_TOLERANCE Binary32)"
proof -
  have nz: "m_x vec5 \<noteq> 0"
    by (simp add: vec5_def Vec2D_def)
  have r: "(1 / 2 ^ 60 \<le> \<bar>m_x vec5\<bar> \<or> 1 / 2 ^ 60 \<le> \<bar>m_y vec5\<bar>) \<and> \<bar>m_x vec5\<bar> \<le> 2 ^ 60 \<and> \<bar>m_y vec5\<bar> \<le> 2 ^ 60"
    by (simp add: vec5_def Vec2D_def)
  from normalized_magnitude_in_range [of vec5] nz r show ?thesis
    by blast
qed

section \<open>Addition followed by subtraction\<close>

text \<open>
  Claim C8, as stated, fails in binary32 arithmetic: \<open>1 + 2^30\<close> rounds to \<open>2^30\<close>, so
  \<open>((1, 0) + (2^30, 0)) - (2^30, 0)\<close> is \<open>(0, 0)\<close>, which \<^verbatim>\<open>operator==\<close> does not equate
  with \<open>(1, 0)\<close>.
\<close>

theorem add_sub_absorbed:
  "operator_minus Binary32 (operator_plus Binary32 (Vec2D 1 0) (Vec2D (2 ^ 30) 0)) (Vec2D (2 ^ 30) 0)
     = Vec2D 0 0 \<and>
   \<not> operator_eq Binary32
       (operator_minus Binary32 (operator_plus Binary32 (Vec2D 1 0) (Vec2D (2 ^ 30) 0)) (Vec2D (2 ^ 30) 0))
       (Vec2D 1 0)"
  by code_simp

text \<open>
  Claim C8, amended. \<open>(a + b) - b\<close> equals \<open>a\<close> under \<^verbatim>\<open>operator==\<close> for all vectors in
  exact arithmetic, and in binary32 arithmetic for all vectors whose components have
  absolute values of at most 512.
\<close>

theorem add_sub_inverse_in_range:
  "operator_eq Exact (operator_minus Exact (operator_plus Exact a b) b) a \<and>
   (\<bar>m_x a\<bar> \<le> 512 \<and> \<bar>m_y a\<bar> \<le> 512 \<and> \<bar>m_x b\<bar> \<le> 512 \<and> \<bar>m_y b\<bar> \<le> 512 \<longrightarrow>
      operator_eq Binary32 (operator_minus Binary32 (operator_plus Binary32 a b) b) a)"
  using add_sub_exact [of a b] add_sub_bounded [of a b Binary32] by blast

text \<open>The vectors \<^verbatim>\<open>vec5\<close> \<open>= (5, 5)\<close> and \<^verbatim>\<open>vec6\<close> \<open>= (42, -12)\<close> of the self-test.\<close>

theorem add_sub_inverse_in_range_witness:
  "(\<bar>m_x vec5\<bar> \<le> 512 \<and> \<bar>m_y vec5\<bar> \<le> 512 \<and> \<bar>m_x vec6\<bar> \<le> 512 \<and> \<bar>m_y vec6\<bar> \<le> 512) \<and>
   operator_eq Binary32 (operator_minus Binary32 (operator_plus Binary32 vec5 vec6) vec6) vec5"
proof -
  have "\<bar>m_x vec5\<bar> \<le> 512 \<and> \<bar>m_y vec5\<bar> \<le> 512 \<and> \<bar>m_x vec6\<bar> \<le> 512 \<and> \<bar>m_y vec6\<bar> \<le> 512"
    by (simp add: vec5_def vec6_def Vec2D_def)
  with add_sub_inverse_in_range [of vec5 vec6] show ?thesis
    by blast
qed

section \<open>A field of view that is not positive\<close>

text \<open>
  Claim C9. With a field of view of 0, or one set to a value that is not positive by
  \<^verbatim>\<open>SetFieldOfView\<close>, \<^verbatim>\<open>CanSeeTarget\<close> is false for every target: the angle is never
  negative and the comparison with half the field of view is strict. That the angle is
  never negative is what every \<^verbatim>\<open>acos\<close> provides (its values are in \<open>[0, \<pi>]\<close>), the correctly
  rounded one or not; nothing else is used of the library.
\<close>

theorem canSeeTarget_nonpositive_fov:
  "(\<forall>q. - 1 \<le> q \<and> q \<le> 1 \<longrightarrow> 0 \<le> acos q) \<longrightarrow>
   (m_fieldOfView c \<le> 0 \<longrightarrow> \<not> CanSeeTarget ar acos c targetPosition) \<and>
   (angleRad \<le> 0 \<longrightarrow> \<not> CanSeeTarget ar acos (SetFieldOfView c angleRad) targetPosition)"
proof
  assume nonneg: "\<forall>q. - 1 \<le> q \<and> q \<le> 1 \<longrightarrow> 0 \<le> acos q"
  have *: "\<not> CanSeeTarget ar acos d targetPosition" if "m_fieldOfView d \<le> 0" for d
  proof -
    from that have "fl ar (m_fieldOfView d / 2) \<le> 0"
      by (intro fl_nonpos) simp
    then show ?thesis
      by (auto simp: CanSeeTarget_def Let_def split: option.splits dest!: facos_nonneg [OF nonneg])
  qed
  show "(m_fieldOfView c \<le> 0 \<longrightarrow> \<not> CanSeeTarget ar acos c targetPosition) \<and>
   (angleRad \<le> 0 \<longrightarrow> \<not> CanSeeTarget ar acos (SetFieldOfView c angleRad) targetPosition)"
    using * [of c] * [of "SetFieldOfView c angleRad"] by (simp add: SetFieldOfView_def)
qed

text \<open>
  The target \<open>(0, 50)\<close>, straight ahead of \<^verbatim>\<open>cam0\<close> and in range, with field of view 0 and -1:
  in exact arithmetic, and in binary32 arithmetic with the correctly rounded \<^verbatim>\<open>acos\<close>.
\<close>

theorem canSeeTarget_nonpositive_fov_witness:
  "m_fieldOfView (cam0_exact\<lparr>m_fieldOfView := 0\<rparr>) \<le> 0 \<and>
   \<not> CanSeeTarget Exact arccos (cam0_exact\<lparr>m_fieldOfView := 0\<rparr>) vec8 \<and>
   (- 1 :: real) \<le> 0 \<and> \<not> CanSeeTarget Exact arccos (SetFieldOfView cam0_exact (- 1)) vec8 \<and>
   \<not> CanSeeTarget Binary32 acos_nearest (SetFieldOfView cam0_binary32 (- 1)) vec8"
proof -
  have e: "\<forall>q. - 1 \<le> q \<and> q \<le> 1 \<longrightarrow> 0 \<le> arccos q"
    by (simp add: arccos_lbound)
  have b: "\<forall>q. - 1 \<le> q \<and> q \<le> 1 \<longrightarrow> 0 \<le> acos_nearest q"
    by (simp add: acos_nearest_def round32_nonneg arccos_lbound)
  from e b
    canSeeTarget_nonpositive_fov [where c = "cam0_exact\<lparr>m_fieldOfView := 0\<rparr>" and ar = Exact
      and acos = arccos and targetPosition = vec8]
    canSeeTarget_nonpositive_fov [where c = cam0_exact and angleRad = "- 1" and ar = Exact
      and acos = arccos and targetPosition = vec8]
    canSeeTarget_nonpositive_fov [where c = cam0_binary32 and angleRad = "- 1" and ar = Binary32
      and acos = acos_nearest and targetPosition = vec8]
  show ?thesis
    by simp
qed

section \<open>A zero orientation\<close>

lemma round32_float_pi:
  "round32 (13176795 / 4194304) = 13176795 / 4194304"
  "round32 (13176795 / 8388608) = 13176795 / 8388608"
  "round32 2 = 2"
  by code_simp+

lemma float_pi_cam_constructed:
  "Camera2D Binary32 (Vec2D 0 0) (Vec2D 0 0) (13176795 / 4194304) 100 = Some float_pi_cam"
  by (simp add: Camera2D_def SetOrientation_def GetNormalized_Some GetMagnitude_zero float_pi_cam_def)

lemma vec9_from_origin:
  "\<not> operator_eq ar vec9 (Vec2D 0 0)"
  "GetMagnitude ar (operator_minus ar vec9 (Vec2D 0 0)) = 50"
  "DotProduct ar (Vec2D 0 0) (operator_minus ar vec9 (Vec2D 0 0)) = 0"
  by (cases ar;
      simp add: operator_eq_def GetMagnitude_def DotProduct_def operator_minus_def fsqrt_def
        fadd_def fmul_def fsub_def vec9_def Vec2D_def sqrt_2500 MAX_FLOAT_TOLERANCE_def
        round32_tolerance round32_values round32_zero)+

text \<open>
  Claim C10, as stated, fails in binary32 arithmetic. The camera has a zero orientation
  and the float nearest to \<open>\<pi>\<close> as its field of view, \<open>13176795 / 2^22\<close>, which is greater
  than \<open>\<pi>\<close>; the target \<open>(0, -50)\<close> is in range and not at the camera's position. The angle is
  \<^verbatim>\<open>acos(0)\<close>, the float nearest to \<open>\<pi>/2\<close>, \<open>13176795 / 2^23\<close>; half the field of view is the
  same number, and the target is not seen.
\<close>

theorem float_pi_field_of_view_not_seen:
  "Camera2D Binary32 (Vec2D 0 0) (Vec2D 0 0) (13176795 / 4194304) 100 = Some float_pi_cam \<and>
   m_orientation float_pi_cam = Vec2D 0 0 \<and>
   \<not> operator_eq Binary32 vec9 (m_position float_pi_cam) \<and>
   GetMagnitude Binary32 (operator_minus Binary32 vec9 (m_position float_pi_cam))
     \<le> m_viewDistance float_pi_cam \<and>
   round32 (m_fieldOfView float_pi_cam) = m_fieldOfView float_pi_cam \<and>
   pi < m_fieldOfView float_pi_cam \<and>
   acos_nearest 0 = 13176795 / 8388608 \<and>
   fl Binary32 (m_fieldOfView float_pi_cam / 2) = 13176795 / 8388608 \<and>
   \<not> CanSeeTarget Binary32 acos_nearest float_pi_cam vec9"
proof -
  have c: "m_position float_pi_cam = Vec2D 0 0" "m_orientation float_pi_cam = Vec2D 0 0"
    "m_fieldOfView float_pi_cam = 13176795 / 4194304" "m_viewDistance float_pi_cam = 100"
    by (simp_all add: float_pi_cam_def)
  have unseen: "\<not> CanSeeTarget Binary32 acos_nearest float_pi_cam vec9"
    by (simp add: CanSeeTarget_def Let_def c vec9_from_origin fdiv_def facos_def round32_zero
        acos_nearest_zero round32_float_pi)
  with pi_bounds(2) show ?thesis
    by (simp add: float_pi_cam_constructed c vec9_from_origin acos_nearest_zero round32_float_pi)
qed

text \<open>
  Claim C10, amended. With the zero vector as orientation, a target that is not at the
  camera's position, and coordinates of target and camera of absolute value at most
  \<open>2^60\<close> (so that no square overflows), the distance, which is the divisor of the argument
  of \<^verbatim>\<open>acos\<close>, is not zero; the dot product and the quotient are 0 and the angle is what
  \<^verbatim>\<open>acos(0)\<close> returns. A target in range is seen exactly when that angle is less than half
  the field of view as computed. In exact arithmetic, where \<^verbatim>\<open>acos(0)\<close> is \<open>\<pi>/2\<close>, that is
  exactly when the field of view exceeds \<open>\<pi>\<close>. In binary32 arithmetic, where \<^verbatim>\<open>acos(0)\<close> is the
  float nearest to \<open>\<pi>/2\<close>, \<open>13176795 / 2^23\<close>, it is exactly when the rounded half of the field
  of view exceeds \<open>13176795 / 2^23\<close>: when halving is exact, exactly when the field of view
  exceeds \<open>13176795 / 2^22\<close>, the float nearest to \<open>\<pi>\<close>, which is greater than \<open>\<pi>\<close>.
\<close>

theorem canSeeTarget_zero_orientation:
  "m_orientation c = Vec2D 0 0 \<longrightarrow> \<not> operator_eq ar t (m_position c) \<longrightarrow>
   \<bar>m_x t\<bar> \<le> 2 ^ 60 \<and> \<bar>m_y t\<bar> \<le> 2 ^ 60 \<and>
   \<bar>m_x (m_position c)\<bar> \<le> 2 ^ 60 \<and> \<bar>m_y (m_position c)\<bar> \<le> 2 ^ 60 \<longrightarrow>
     (let v = operator_minus ar t (m_position c); d = GetMagnitude ar v
      in d \<noteq> 0 \<and> DotProduct ar (m_orientation c) v = 0 \<and>
         fdiv ar (DotProduct ar (m_orientation c) v) d = Some 0 \<and>
         facos acos 0 = Some (acos 0) \<and>
         (d \<le> m_viewDistance c \<longrightarrow>
            (CanSeeTarget ar acos c t \<longleftrightarrow> acos 0 < fl ar (m_fieldOfView c / 2)) \<and>
            (ar = Exact \<and> acos 0 = pi / 2 \<longrightarrow>
               (CanSeeTarget ar acos c t \<longleftrightarrow> pi < m_fieldOfView c)) \<and>
            (ar = Binary32 \<and> acos 0 = 13176795 / 8388608 \<longrightarrow>
               (CanSeeTarget ar acos c t \<longleftrightarrow> 13176795 / 8388608 < round32 (m_fieldOfView c / 2)) \<and>
               (round32 (m_fieldOfView c / 2) = m_fieldOfView c / 2 \<longrightarrow>
                  (CanSeeTarget ar acos c t \<longleftrightarrow> 13176795 / 4194304 < m_fieldOfView c)))))"
proof (intro impI)
  assume ori: "m_orientation c = Vec2D 0 0" and ne: "\<not> operator_eq ar t (m_position c)"
  define v where "v = operator_minus ar t (m_position c)"
  define d where "d = GetMagnitude ar v"
  have d: "d \<noteq> 0"
    using distance_pos [OF ne] by (simp add: d_def v_def)
  have dot: "DotProduct ar (m_orientation c) v = 0"
    by (simp add: ori DotProduct_def fadd_def fmul_def Vec2D_def fl_zero)
  have q: "fdiv ar (DotProduct ar (m_orientation c) v) d = Some 0"
    using d by (simp add: dot fdiv_def fl_zero)
  have ac: "facos acos 0 = Some (acos 0)"
    by (simp add: facos_def)
  have see: "CanSeeTarget ar acos c t \<longleftrightarrow> acos 0 < fl ar (m_fieldOfView c / 2)"
    if "d \<le> m_viewDistance c"
    using that ne by (simp add: CanSeeTarget_def Let_def v_def [symmetric] d_def [symmetric] q ac)
  have exact: "CanSeeTarget ar acos c t \<longleftrightarrow> pi < m_fieldOfView c"
    if "d \<le> m_viewDistance c" "ar = Exact \<and> acos 0 = pi / 2"
    using that see by simp
  have binary: "CanSeeTarget ar acos c t \<longleftrightarrow> 13176795 / 8388608 < round32 (m_fieldOfView c / 2)"
    if A: "d \<le> m_viewDistance c" and B: "ar = Binary32 \<and> acos 0 = 13176795 / 8388608"
  proof -
    from B have e: "acos 0 = 13176795 / 8388608" and b: "ar = Binary32"
      by blast+
    show ?thesis
      using see [OF A] unfolding e b fl.simps .
  qed
  have halved: "CanSeeTarget ar acos c t \<longleftrightarrow> 13176795 / 4194304 < m_fieldOfView c"
    if A: "d \<le> m_viewDistance c" and B: "ar = Binary32 \<and> acos 0 = 13176795 / 8388608"
      and C: "round32 (m_fieldOfView c / 2) = m_fieldOfView c / 2"
  proof -
    have "(13176795 / 8388608 < m_fieldOfView c / 2) = (13176795 / 4194304 < m_fieldOfView c)"
      by simp
    with binary [OF A B] show ?thesis
      unfolding C by blast
  qed
  from d dot q ac see exact binary halved
  show "let v = operator_minus ar t (m_position c); d = GetMagnitude ar v
      in d \<noteq> 0 \<and> DotProduct ar (m_orientation c) v = 0 \<and>
         fdiv ar (DotProduct ar (m_orientation c) v) d = Some 0 \<and>
         facos acos 0 = Some (acos 0) \<and>
         (d \<le> m_viewDistance c \<longrightarrow>
            (CanSeeTarget ar acos c t \<longleftrightarrow> acos 0 < fl ar (m_fieldOfView c / 2)) \<and>
            (ar = Exact \<and> acos 0 = pi / 2 \<longrightarrow>
               (CanSeeTarget ar acos c t \<longleftrightarrow> pi < m_fieldOfView c)) \<and>
            (ar = Binary32 \<and> acos 0 = 13176795 / 8388608 \<longrightarrow>
               (CanSeeTarget ar acos c t \<longleftrightarrow> 13176795 / 8388608 < round32 (m_fieldOfView c / 2)) \<and>
               (round32 (m_fieldOfView c / 2) = m_fieldOfView c / 2 \<longrightarrow>
                  (CanSeeTarget ar acos c t \<longleftrightarrow> 13176795 / 4194304 < m_fieldOfView c))))"
    unfolding Let_def v_def [symmetric] d_def [symmetric] by blast
qed

text \<open>
  The camera constructed with a zero orientation and field of view 4 sees the target
  \<open>(0, -50)\<close>, in exact arithmetic and in binary32 arithmetic with the correctly rounded
  \<^verbatim>\<open>acos\<close>; with the field of view set to 2 it does not.
\<close>

theorem canSeeTarget_zero_orientation_witness:
  "Camera2D Exact (Vec2D 0 0) (Vec2D 0 0) 4 100 = Some zero_cam \<and>
   m_orientation zero_cam = Vec2D 0 0 \<and> \<not> operator_eq Exact vec9 (m_position zero_cam) \<and>
   \<bar>m_x vec9\<bar> \<le> 2 ^ 60 \<and> \<bar>m_y vec9\<bar> \<le> 2 ^ 60 \<and>
   \<bar>m_x (m_position zero_cam)\<bar> \<le> 2 ^ 60 \<and> \<bar>m_y (m_position zero_cam)\<bar> \<le> 2 ^ 60 \<and>
   GetMagnitude Exact (operator_minus Exact vec9 (m_position zero_cam)) \<le> m_viewDistance zero_cam \<and>
   arccos 0 = pi / 2 \<and>
   CanSeeTarget Exact arccos zero_cam vec9 \<and>
   \<not> CanSeeTarget Exact arccos (SetFieldOfView zero_cam 2) vec9 \<and>
   \<not> operator_eq Binary32 vec9 (m_position zero_cam) \<and>
   GetMagnitude Binary32 (operator_minus Binary32 vec9 (m_position zero_cam)) \<le> m_viewDistance zero_cam \<and>
   acos_nearest 0 = 13176795 / 8388608 \<and>
   round32 (m_fieldOfView zero_cam / 2) = m_fieldOfView zero_cam / 2 \<and>
   CanSeeTarget Binary32 acos_nearest zero_cam vec9 \<and>
   round32 (m_fieldOfView (SetFieldOfView zero_cam 2) / 2) = m_fieldOfView (SetFieldOfView zero_cam 2) / 2 \<and>
   \<not> CanSeeTarget Binary32 acos_nearest (SetFieldOfView zero_cam 2) vec9"
proof -
  have c: "m_position (SetFieldOfView zero_cam f) = Vec2D 0 0"
    "m_orientation (SetFieldOfView zero_cam f) = Vec2D 0 0"
    "m_viewDistance (SetFieldOfView zero_cam f) = 100"
    "m_fieldOfView (SetFieldOfView zero_cam f) = f" for f
    by (simp_all add: SetFieldOfView_def zero_cam_def)
  have z: "zero_cam = SetFieldOfView zero_cam 4"
    by (simp add: SetFieldOfView_def zero_cam_def)
  have bounds: "\<bar>m_x vec9\<bar> \<le> 2 ^ 60 \<and> \<bar>m_y vec9\<bar> \<le> 2 ^ 60 \<and>
      \<bar>m_x (Vec2D 0 0)\<bar> \<le> 2 ^ 60 \<and> \<bar>m_y (Vec2D 0 0)\<bar> \<le> 2 ^ 60"
    by (simp add: vec9_def Vec2D_def)
  have ne: "\<not> operator_eq ar vec9 (m_position (SetFieldOfView zero_cam f))" for ar f
    by (simp add: c vec9_from_origin)
  have d: "GetMagnitude ar (operator_minus ar vec9 (m_position (SetFieldOfView zero_cam f)))
      \<le> m_viewDistance (SetFieldOfView zero_cam f)" for ar f
    by (simp add: c vec9_from_origin)
  have r: "round32 (m_fieldOfView (SetFieldOfView zero_cam 4) / 2) = m_fieldOfView (SetFieldOfView zero_cam 4) / 2"
    "round32 (m_fieldOfView (SetFieldOfView zero_cam 2) / 2) = m_fieldOfView (SetFieldOfView zero_cam 2) / 2"
    by (simp_all add: c round32_float_pi round32_values)
  have a: "arccos 0 = pi / 2"
    by simp
  have p: "pi < m_fieldOfView (SetFieldOfView zero_cam 4)" "\<not> pi < m_fieldOfView (SetFieldOfView zero_cam 2)"
    "(13176795 / 4194304 :: real) < m_fieldOfView (SetFieldOfView zero_cam 4)"
    "\<not> (13176795 / 4194304 :: real) < m_fieldOfView (SetFieldOfView zero_cam 2)"
    using pi_less_4 pi_ge_two by (simp_all add: c)
  from canSeeTarget_zero_orientation [where c = "SetFieldOfView zero_cam 4" and ar = Exact
      and acos = arccos and t = vec9] c [of 4] ne [of Exact 4] d [of Exact 4] bounds a p(1)
  have s1: "CanSeeTarget Exact arccos (SetFieldOfView zero_cam 4) vec9"
    unfolding Let_def by simp
  from canSeeTarget_zero_orientation [where c = "SetFieldOfView zero_cam 2" and ar = Exact
      and acos = arccos and t = vec9] c [of 2] ne [of Exact 2] d [of Exact 2] bounds a p(2)
  have s2: "\<not> CanSeeTarget Exact arccos (SetFieldOfView zero_cam 2) vec9"
    unfolding Let_def by simp
  from canSeeTarget_zero_orientation [where c = "SetFieldOfView zero_cam 4" and ar = Binary32
      and acos = acos_nearest and t = vec9] c [of 4] ne [of Binary32 4] d [of Binary32 4] bounds
    acos_nearest_zero r(1) p(3)
  have s3: "CanSeeTarget Binary32 acos_nearest (SetFieldOfView zero_cam 4) vec9"
    unfolding Let_def by simp
  from canSeeTarget_zero_orientation [where c = "SetFieldOfView zero_cam 2" and ar = Binary32
      and acos = acos_nearest and t = vec9] c [of 2] ne [of Binary32 2] d [of Binary32 2] bounds
    acos_nearest_zero r(2) p(4)
  have s4: "\<not> CanSeeTarget Binary32 acos_nearest (SetFieldOfView zero_cam 2) vec9"
    unfolding Let_def by simp
  from s1 s2 s3 s4 r a acos_nearest_zero bounds ne [of Exact 4] ne [of Binary32 4]
    d [of Exact 4] d [of Binary32 4] c [of 4] zero_cam_constructed [of Exact]
  show ?thesis
    unfolding z [symmetric] by simp
qed

end
